theory Spec2Isabelle
  imports Complex_Main
begin

section \<open>JavaScript values and strings\<close>

text \<open>
  The generation client of \<^verbatim>\<open>src/services/AIService.ts\<close> is embedded
  function by function. Payloads decoded from JSON are values of \<open>jsval\<close>: numbers
  are rationals (every finite double is one), strings are lists of code units below 256,
  and an object lists its own properties, each key once.
\<close>

datatype jsval =
    JUndefined
  | JNull
  | JBool bool
  | JNum rat
  | JStr string
  | JArr "jsval list"
  | JObj "(string \<times> jsval) list"

text \<open>The classified error: \<^verbatim>\<open>AIErrorCode\<close> and the fields of
  \<^verbatim>\<open>AIServiceError\<close>, the suggested wait in seconds.\<close>

datatype AIErrorCode =
    RATE_LIMIT
  | NETWORK_ERROR
  | TIMEOUT
  | INVALID_API_KEY
  | QUOTA_EXCEEDED
  | MODEL_NOT_FOUND
  | CONTEXT_LENGTH_EXCEEDED
  | SERVER_ERROR
  | UNKNOWN

record AIServiceError =
  message :: string
  code :: AIErrorCode
  retryable :: bool
  retryAfter :: "int option"

text \<open>What a \<^verbatim>\<open>throw\<close> can carry: an \<^verbatim>\<open>AIServiceError\<close>, another
  \<^verbatim>\<open>Error\<close> (name, message), or a value that is no \<^verbatim>\<open>Error\<close> at all.\<close>

datatype thrown =
    ServiceError AIServiceError
  | JsError string string
  | NonError

text \<open>The constructor of \<^verbatim>\<open>AIServiceError\<close>: \<^verbatim>\<open>retryable\<close> defaults to
  false and \<^verbatim>\<open>retryAfter\<close> to undefined where the call site leaves them out.\<close>

definition mkError :: "string \<Rightarrow> AIErrorCode \<Rightarrow> bool \<Rightarrow> int option \<Rightarrow> AIServiceError" where
  "mkError m c r ra = \<lparr>message = m, code = c, retryable = r, retryAfter = ra\<rparr>"

fun truthy :: "jsval \<Rightarrow> bool" where
  "truthy JUndefined = False"
| "truthy JNull = False"
| "truthy (JBool b) = b"
| "truthy (JNum n) = (n \<noteq> 0)"
| "truthy (JStr s) = (s \<noteq> [])"
| "truthy (JArr xs) = True"
| "truthy (JObj kvs) = True"

fun nullish :: "jsval \<Rightarrow> bool" where
  "nullish JUndefined = True"
| "nullish JNull = True"
| "nullish v = False"

text \<open>\<open>getProp v k\<close> is \<^verbatim>\<open>v.k\<close> on a value that is neither null nor undefined, for the
  identifiers the client reads (none of them is \<^verbatim>\<open>length\<close> or inherited from a
  prototype); \<open>index0 v\<close> is \<^verbatim>\<open>v[0]\<close>.\<close>

fun getProp :: "jsval \<Rightarrow> string \<Rightarrow> jsval" where
  "getProp (JObj kvs) k = (case map_of kvs k of Some v \<Rightarrow> v | None \<Rightarrow> JUndefined)"
| "getProp v k = JUndefined"

fun index0 :: "jsval \<Rightarrow> jsval" where
  "index0 (JArr xs) = (case xs of [] \<Rightarrow> JUndefined | x # rest \<Rightarrow> x)"
| "index0 (JStr s) = (case s of [] \<Rightarrow> JUndefined | c # rest \<Rightarrow> JStr [c])"
| "index0 (JObj kvs) = (case map_of kvs ''0'' of Some v \<Rightarrow> v | None \<Rightarrow> JUndefined)"
| "index0 v = JUndefined"

text \<open>\<^verbatim>\<open>v.length === 0\<close> on a value that is neither null nor undefined.\<close>

fun lengthIsZero :: "jsval \<Rightarrow> bool" where
  "lengthIsZero (JArr xs) = (xs = [])"
| "lengthIsZero (JStr s) = (s = [])"
| "lengthIsZero (JObj kvs) = (map_of kvs ''length'' = Some (JNum 0))"
| "lengthIsZero v = False"

text \<open>Optional chaining: \<^verbatim>\<open>v?.k\<close> and \<^verbatim>\<open>v?.[0]\<close>.\<close>

definition optProp :: "jsval \<Rightarrow> string \<Rightarrow> jsval" where
  "optProp v k = (if nullish v then JUndefined else getProp v k)"

definition optIndex0 :: "jsval \<Rightarrow> jsval" where
  "optIndex0 v = (if nullish v then JUndefined else index0 v)"

section \<open>Configuration, requests and what lies outside the class\<close>

text \<open>\<^verbatim>\<open>EvergreenAISettings\<close>, a type of \<^verbatim>\<open>../types\<close>, with the fields the
  client reads. The credential and the endpoint override may be undefined (\<open>None\<close>) as
  well as empty.\<close>

record EvergreenAISettings =
  aiProvider :: string
  apiKey :: "string option"
  apiEndpoint :: "string option"
  model :: string
  maxTokens :: rat
  temperature :: rat

record RetryConfig =
  maxRetries :: int
  baseDelayMs :: int
  maxDelayMs :: int

definition DEFAULT_RETRY_CONFIG :: RetryConfig where
  "DEFAULT_RETRY_CONFIG = \<lparr>maxRetries = 3, baseDelayMs = 1000, maxDelayMs = 30000\<rparr>"

text \<open>The endpoints of \<^verbatim>\<open>PROVIDER_DEFAULTS\<close>, a constant of
  \<^verbatim>\<open>../types\<close>; its values are left open.\<close>

record PROVIDER_DEFAULTS =
  openai_endpoint :: string
  anthropic_endpoint :: string
  ollama_endpoint :: string

text \<open>What \<^verbatim>\<open>buildRequest\<close> returns. A header whose value is undefined is
  \<open>None\<close>.\<close>

record request =
  endpoint :: "string option"
  headers :: "(string \<times> string option) list"
  body :: jsval

text \<open>The outcome of \<^verbatim>\<open>requestUrl\<close>: a response (status and decoded body), an
  \<^verbatim>\<open>Error\<close> (name, message) or some other thrown value.\<close>

datatype http_result =
    Responded nat jsval
  | RequestError string string
  | RequestThrew

text \<open>One \<^verbatim>\<open>reader.read()\<close> that is not the end of the stream: decoded text, or
  a failure. The end of the list is \<^verbatim>\<open>done\<close>.\<close>

datatype read_result =
    Bytes string
  | ReadError string string
  | ReadThrew

text \<open>The response of \<^verbatim>\<open>fetch\<close>: \<^verbatim>\<open>ok\<close>, \<^verbatim>\<open>status\<close>, the value of
  \<^verbatim>\<open>json()\<close> (\<open>None\<close> when it rejects) and the reads of the body's reader
  (\<open>None\<close> when there is no body).\<close>

record fetch_response =
  resp_ok :: bool
  resp_status :: nat
  resp_json :: "jsval option"
  resp_body :: "read_result list option"

datatype fetch_result =
    Fetched fetch_response
  | FetchError string string
  | FetchThrew

text \<open>
  Everything outside the class: \<^verbatim>\<open>Platform.isMobile\<close>, \<^verbatim>\<open>JSON.parse\<close> (an
  error for text that is not JSON), the rendering of a number by \<^verbatim>\<open>String\<close>, the
  message of the \<^verbatim>\<open>TypeError\<close> the engine throws for an expression, the
  defaults, the network (answering the request sent at a given suspension), and the
  configuration that other code installs through \<^verbatim>\<open>updateSettings\<close> while the
  client is suspended for the k-th time (\<open>None\<close>: nobody does).
\<close>

record env =
  isMobile :: bool
  JSON_parse :: "string \<Rightarrow> thrown + jsval"
  Number_toString :: "rat \<Rightarrow> string"
  TypeError_message :: "string \<Rightarrow> string"
  defaults :: PROVIDER_DEFAULTS
  requestUrl :: "nat \<Rightarrow> request \<Rightarrow> http_result"
  fetch :: "nat \<Rightarrow> request \<Rightarrow> fetch_result"
  settingsUpdate :: "nat \<Rightarrow> EvergreenAISettings option"

definition TypeError :: "env \<Rightarrow> string \<Rightarrow> thrown" where
  "TypeError E expr = JsError ''TypeError'' (TypeError_message E expr)"

text \<open>\<^verbatim>\<open>String(v)\<close>. An array joins its elements with commas, null and undefined
  elements as the empty string; an object is \<^verbatim>\<open>[object Object]\<close> unless it
  carries a \<^verbatim>\<open>toString\<close> key of its own, which is no function in a JSON payload,
  so that the conversion throws.\<close>

fun js_String :: "env \<Rightarrow> jsval \<Rightarrow> thrown + string"
  and js_join :: "env \<Rightarrow> jsval list \<Rightarrow> thrown + string" where
  "js_String E JUndefined = Inr ''undefined''"
| "js_String E JNull = Inr ''null''"
| "js_String E (JBool b) = Inr (if b then ''true'' else ''false'')"
| "js_String E (JNum n) = Inr (Number_toString E n)"
| "js_String E (JStr s) = Inr s"
| "js_String E (JArr xs) = js_join E xs"
| "js_String E (JObj kvs) =
     (if map_of kvs ''toString'' = None then Inr ''[object Object]''
      else Inl (TypeError E ''String''))"
| "js_join E [] = Inr []"
| "js_join E (x # xs) =
     (case (if nullish x then Inr [] else js_String E x) of
        Inl e \<Rightarrow> Inl e
      | Inr s \<Rightarrow>
          (if xs = [] then Inr s
           else (case js_join E xs of Inl e \<Rightarrow> Inl e | Inr t \<Rightarrow> Inr (s @ '','' @ t))))"

subsection \<open>String operations\<close>

text \<open>\<^verbatim>\<open>toLowerCase\<close>, \<^verbatim>\<open>startsWith\<close>, \<^verbatim>\<open>includes\<close> and \<^verbatim>\<open>trim\<close> on
  code units below 256: the letters with a lower case there are A to Z and the accented
  capitals from 192 to 222 (215 is the multiplication sign), the white space is 9 to 13,
  32 and 160.\<close>

definition toLowerChar :: "char \<Rightarrow> char" where
  "toLowerChar c =
     (let n = (of_char c :: nat)
      in if (65 \<le> n \<and> n \<le> 90) \<or> (192 \<le> n \<and> n \<le> 222 \<and> n \<noteq> 215)
         then char_of (n + 32) else c)"

definition toLowerCase :: "string \<Rightarrow> string" where
  "toLowerCase s = map toLowerChar s"

fun startsWith :: "string \<Rightarrow> string \<Rightarrow> bool" where
  "startsWith s [] = True"
| "startsWith [] (p # ps) = False"
| "startsWith (c # cs) (p # ps) = (c = p \<and> startsWith cs ps)"

fun includesStr :: "string \<Rightarrow> string \<Rightarrow> bool" where
  "includesStr [] sub = (sub = [])"
| "includesStr (c # cs) sub = (startsWith (c # cs) sub \<or> includesStr cs sub)"

definition isWhiteSpace :: "char \<Rightarrow> bool" where
  "isWhiteSpace c =
     (let n = (of_char c :: nat) in (9 \<le> n \<and> n \<le> 13) \<or> n = 32 \<or> n = 160)"

definition trim :: "string \<Rightarrow> string" where
  "trim s = rev (dropWhile isWhiteSpace (rev (dropWhile isWhiteSpace s)))"

text \<open>\<^verbatim>\<open>s.split('\n')\<close>: never empty, its last element is the text after the last
  newline.\<close>

fun split_newline :: "string \<Rightarrow> string list" where
  "split_newline [] = [[]]"
| "split_newline (c # cs) =
     (if c = CHR 0x0A then [] # split_newline cs
      else (case split_newline cs of
              [] \<Rightarrow> [[c]]
            | l # ls \<Rightarrow> (c # l) # ls))"

definition isDigit :: "char \<Rightarrow> bool" where
  "isDigit c = (let n = (of_char c :: nat) in 48 \<le> n \<and> n \<le> 57)"

text \<open>\<^verbatim>\<open>parseInt(ds, 10)\<close> on a string of decimal digits.\<close>

definition parseInt :: "string \<Rightarrow> int" where
  "parseInt ds = foldl (\<lambda>acc c. acc * 10 + (int (of_char c) - 48)) 0 ds"

text \<open>\<^verbatim>\<open>s.match(/try again in (\d+)/i)\<close>: the first capture group of the leftmost
  match, the digits taken greedily.\<close>

definition matchHere :: "string \<Rightarrow> string option" where
  "matchHere s =
     (let p = ''try again in ''
      in if length p \<le> length s \<and> toLowerCase (take (length p) s) = p
         then (let ds = takeWhile isDigit (drop (length p) s)
               in if ds = [] then None else Some ds)
         else None)"

fun retryMatch :: "string \<Rightarrow> string option" where
  "retryMatch [] = None"
| "retryMatch (c # cs) =
     (case matchHere (c # cs) of Some ds \<Rightarrow> Some ds | None \<Rightarrow> retryMatch cs)"

section \<open>Error classification\<close>

text \<open>Lines 320 to 333 of \<^verbatim>\<open>parseErrorResponse\<close>: the provider's message, from
  \<^verbatim>\<open>body.error.message\<close>, \<^verbatim>\<open>body.message\<close> or \<^verbatim>\<open>body.detail\<close>.\<close>

definition providerMessage :: "env \<Rightarrow> jsval \<Rightarrow> thrown + string" where
  "providerMessage E errorBody =
     (if nullish errorBody then Inl (TypeError E ''body.error'')
      else if truthy (optProp (getProp errorBody ''error'') ''message'')
        then js_String E (getProp (getProp errorBody ''error'') ''message'')
      else if truthy (getProp errorBody ''message'') then js_String E (getProp errorBody ''message'')
      else if truthy (getProp errorBody ''detail'') then js_String E (getProp errorBody ''detail'')
      else Inr ''API request failed'')"

definition serverErrorText :: "env \<Rightarrow> nat \<Rightarrow> string" where
  "serverErrorText E status =
     ''Server error ('' @ Number_toString E (of_nat status)
       @ '') - the AI service may be experiencing issues. Retrying...''"

text \<open>The \<^verbatim>\<open>switch (status)\<close> of \<^verbatim>\<open>parseErrorResponse\<close>, on the extracted
  message. In the 429 branch the message is overwritten before the pattern is matched
  against it, as in the source.\<close>

definition classify :: "env \<Rightarrow> nat \<Rightarrow> string \<Rightarrow> AIServiceError" where
  "classify E status msg =
     (if status = 400 then
        (if includesStr (toLowerCase msg) ''context'' \<or> includesStr (toLowerCase msg) ''token''
            \<or> includesStr (toLowerCase msg) ''length''
         then mkError ''Content too long - try with shorter text or break it into smaller parts''
                CONTEXT_LENGTH_EXCEEDED False None
         else mkError msg UNKNOWN False None)
      else if status = 401 then
        mkError ''Invalid API key - please check your API key in settings''
          INVALID_API_KEY False None
      else if status = 403 then
        mkError ''Access denied - your API key may not have the required permissions''
          INVALID_API_KEY False None
      else if status = 404 then
        mkError ''Model not found - please check the model name in settings''
          MODEL_NOT_FOUND False None
      else if status = 429 then
        (if includesStr (toLowerCase msg) ''quota'' \<or> includesStr (toLowerCase msg) ''billing''
            \<or> includesStr (toLowerCase msg) ''limit exceeded''
         then mkError ''API quota exceeded - please check your billing/usage limits''
                QUOTA_EXCEEDED False None
         else (let message' = ''Rate limit reached - waiting and retrying...''
               in mkError message' RATE_LIMIT True
                    (case retryMatch message' of
                       Some ds \<Rightarrow> Some (parseInt ds)
                     | None \<Rightarrow> Some 60)))
      else if status = 500 \<or> status = 502 \<or> status = 503 \<or> status = 504 then
        mkError (serverErrorText E status) SERVER_ERROR True (Some 5)
      else if status \<ge> 500 then mkError msg SERVER_ERROR True None
      else mkError msg UNKNOWN False None)"

definition parseErrorResponse :: "env \<Rightarrow> nat \<Rightarrow> jsval \<Rightarrow> thrown + AIServiceError" where
  "parseErrorResponse E status errorBody =
     (case providerMessage E errorBody of
        Inl e \<Rightarrow> Inl e
      | Inr msg \<Rightarrow> Inr (classify E status msg))"

text \<open>\<^verbatim>\<open>isNetworkError\<close>. An \<^verbatim>\<open>AIServiceError\<close> is an \<^verbatim>\<open>Error\<close> too,
  named \<^verbatim>\<open>AIServiceError\<close>.\<close>

definition networkErrorMessages :: "string list" where
  "networkErrorMessages =
     [''fetch failed'', ''network'', ''Failed to fetch'', ''NetworkError'', ''ECONNREFUSED'',
      ''ENOTFOUND'', ''ETIMEDOUT'', ''ECONNRESET'', ''ERR_NETWORK'']"

definition matchesNetwork :: "string \<Rightarrow> string \<Rightarrow> bool" where
  "matchesNetwork errName errMessage =
     list_ex (\<lambda>msg. includesStr (toLowerCase errMessage) (toLowerCase msg)
                  \<or> includesStr (toLowerCase errName) (toLowerCase msg))
       networkErrorMessages"

fun isNetworkError :: "thrown \<Rightarrow> bool" where
  "isNetworkError (ServiceError e) = matchesNetwork ''AIServiceError'' (message e)"
| "isNetworkError (JsError n m) = matchesNetwork n m"
| "isNetworkError NonError = False"

section \<open>Request Builder\<close>

definition chatMessage :: "string \<Rightarrow> string \<Rightarrow> jsval" where
  "chatMessage role text = JObj [(''role'', JStr role), (''content'', JStr text)]"

text \<open>The template literal \<^verbatim>\<open>`Bearer ${apiKey}`\<close>.\<close>

definition bearer :: "string option \<Rightarrow> string" where
  "bearer k = ''Bearer '' @ (case k of None \<Rightarrow> ''undefined'' | Some key \<Rightarrow> key)"

text \<open>Truthiness of a string that may be undefined.\<close>

definition present :: "string option \<Rightarrow> bool" where
  "present s = (case s of None \<Rightarrow> False | Some t \<Rightarrow> t \<noteq> [])"

definition buildOpenAIRequest ::
  "env \<Rightarrow> EvergreenAISettings \<Rightarrow> string \<Rightarrow> string \<Rightarrow> bool \<Rightarrow> request" where
  "buildOpenAIRequest E s prompt systemPrompt stream =
     \<lparr>endpoint = Some (openai_endpoint (defaults E)),
      headers = [(''Content-Type'', Some ''application/json''),
                 (''Authorization'', Some (bearer (apiKey s)))],
      body = JObj [(''model'', JStr (model s)),
                   (''messages'', JArr [chatMessage ''system'' systemPrompt,
                                        chatMessage ''user'' prompt]),
                   (''max_tokens'', JNum (maxTokens s)),
                   (''temperature'', JNum (temperature s)),
                   (''stream'', JBool stream)]\<rparr>"

definition buildAnthropicRequest ::
  "env \<Rightarrow> EvergreenAISettings \<Rightarrow> string \<Rightarrow> string \<Rightarrow> bool \<Rightarrow> request" where
  "buildAnthropicRequest E s prompt systemPrompt stream =
     \<lparr>endpoint = Some (anthropic_endpoint (defaults E)),
      headers = [(''Content-Type'', Some ''application/json''),
                 (''x-api-key'', apiKey s),
                 (''anthropic-version'', Some ''2023-06-01'')],
      body = JObj [(''model'', JStr (model s)),
                   (''system'', JStr systemPrompt),
                   (''messages'', JArr [chatMessage ''user'' prompt]),
                   (''max_tokens'', JNum (maxTokens s)),
                   (''temperature'', JNum (temperature s)),
                   (''stream'', JBool stream)]\<rparr>"

definition buildOllamaRequest ::
  "env \<Rightarrow> EvergreenAISettings \<Rightarrow> string \<Rightarrow> string \<Rightarrow> bool \<Rightarrow> request" where
  "buildOllamaRequest E s prompt systemPrompt stream =
     \<lparr>endpoint = (if present (apiEndpoint s) then apiEndpoint s
                  else Some (ollama_endpoint (defaults E))),
      headers = [(''Content-Type'', Some ''application/json'')],
      body = JObj [(''model'', JStr (model s)),
                   (''messages'', JArr [chatMessage ''system'' systemPrompt,
                                        chatMessage ''user'' prompt]),
                   (''stream'', JBool stream),
                   (''options'', JObj [(''temperature'', JNum (temperature s)),
                                       (''num_predict'', JNum (maxTokens s))])]\<rparr>"

definition buildCustomRequest ::
  "env \<Rightarrow> EvergreenAISettings \<Rightarrow> string \<Rightarrow> string \<Rightarrow> bool \<Rightarrow> request" where
  "buildCustomRequest E s prompt systemPrompt stream =
     \<lparr>endpoint = apiEndpoint s,
      headers = (''Content-Type'', Some ''application/json'')
                 # (if present (apiKey s) then [(''Authorization'', Some (bearer (apiKey s)))]
                    else []),
      body = JObj [(''model'', JStr (model s)),
                   (''messages'', JArr [chatMessage ''system'' systemPrompt,
                                        chatMessage ''user'' prompt]),
                   (''max_tokens'', JNum (maxTokens s)),
                   (''temperature'', JNum (temperature s)),
                   (''stream'', JBool stream)]\<rparr>"

definition buildRequest ::
  "env \<Rightarrow> EvergreenAISettings \<Rightarrow> string \<Rightarrow> string \<Rightarrow> bool \<Rightarrow> thrown + request" where
  "buildRequest E s prompt systemPrompt stream =
     (if aiProvider s = ''openai'' then Inr (buildOpenAIRequest E s prompt systemPrompt stream)
      else if aiProvider s = ''anthropic''
        then Inr (buildAnthropicRequest E s prompt systemPrompt stream)
      else if aiProvider s = ''ollama'' then Inr (buildOllamaRequest E s prompt systemPrompt stream)
      else if aiProvider s = ''custom'' then Inr (buildCustomRequest E s prompt systemPrompt stream)
      else Inl (ServiceError
                  (mkError (''Unknown provider: '' @ aiProvider s) UNKNOWN False None)))"

section \<open>Response and chunk parsers\<close>

record usage_counts =
  promptTokens :: jsval
  completionTokens :: jsval

record AIResponse =
  content :: jsval
  model_used :: jsval
  usage :: "usage_counts option"

record AIStreamChunk =
  chunk_content :: jsval
  chunk_done :: jsval

text \<open>\<^verbatim>\<open>v || ''\<close> and \<^verbatim>\<open>v || false\<close>.\<close>

definition orElse :: "jsval \<Rightarrow> jsval \<Rightarrow> jsval" where
  "orElse v d = (if truthy v then v else d)"

text \<open>\<^verbatim>\<open>parseResponse\<close>, with the provider that \<^verbatim>\<open>this.settings\<close> holds when it
  runs. Every branch starts by reading a property of \<^verbatim>\<open>json\<close>, which throws on
  null and undefined.\<close>

definition parseResponse :: "env \<Rightarrow> string \<Rightarrow> jsval \<Rightarrow> thrown + AIResponse" where
  "parseResponse E provider json =
     (if nullish json then Inl (TypeError E ''json'')
      else if provider = ''anthropic'' then
        Inr \<lparr>content = orElse (optProp (optIndex0 (getProp json ''content'')) ''text'') (JStr []),
             model_used = getProp json ''model'',
             usage = (if truthy (getProp json ''usage'')
                      then Some \<lparr>promptTokens = getProp (getProp json ''usage'') ''input_tokens'',
                                 completionTokens =
                                   getProp (getProp json ''usage'') ''output_tokens''\<rparr>
                      else None)\<rparr>
      else if provider = ''ollama'' then
        Inr \<lparr>content = orElse (optProp (getProp json ''message'') ''content'') (JStr []),
             model_used = getProp json ''model'',
             usage = None\<rparr>
      else
        Inr \<lparr>content =
               orElse (optProp (optProp (optIndex0 (getProp json ''choices'')) ''message'')
                         ''content'') (JStr []),
             model_used = getProp json ''model'',
             usage = (if truthy (getProp json ''usage'')
                      then Some \<lparr>promptTokens = getProp (getProp json ''usage'') ''prompt_tokens'',
                                 completionTokens =
                                   getProp (getProp json ''usage'') ''completion_tokens''\<rparr>
                      else None)\<rparr>)"

definition terminalChunk :: AIStreamChunk where
  "terminalChunk = \<lparr>chunk_content = JStr [], chunk_done = JBool True\<rparr>"

text \<open>The \<^verbatim>\<open>switch (provider)\<close> of \<^verbatim>\<open>parseStreamChunk\<close> on the decoded line;
  \<open>Inl\<close> is a \<^verbatim>\<open>TypeError\<close> raised inside the \<^verbatim>\<open>try\<close> block.\<close>

definition chunkOf :: "env \<Rightarrow> string \<Rightarrow> jsval \<Rightarrow> thrown + AIStreamChunk option" where
  "chunkOf E provider data =
     (if provider = ''anthropic'' then
        (if nullish data then Inl (TypeError E ''data.type'')
         else if getProp data ''type'' = JStr ''content_block_delta'' then
           Inr (Some \<lparr>chunk_content = orElse (optProp (getProp data ''delta'') ''text'') (JStr []),
                      chunk_done = JBool False\<rparr>)
         else if getProp data ''type'' = JStr ''message_stop'' then Inr (Some terminalChunk)
         else Inr None)
      else if provider = ''ollama'' then
        (if nullish data then Inl (TypeError E ''data.message'')
         else Inr (Some \<lparr>chunk_content =
                            orElse (optProp (getProp data ''message'') ''content'') (JStr []),
                          chunk_done = orElse (getProp data ''done'') (JBool False)\<rparr>))
      else
        (if nullish data then Inl (TypeError E ''data.choices'')
         else if \<not> truthy (getProp data ''choices'') \<or> lengthIsZero (getProp data ''choices'')
           then Inr None
         else if nullish (index0 (getProp data ''choices''))
           then Inl (TypeError E ''choice.finish_reason'')
         else if getProp (index0 (getProp data ''choices'')) ''finish_reason'' = JStr ''stop''
           then Inr (Some terminalChunk)
         else Inr (Some \<lparr>chunk_content =
                            orElse (optProp (getProp (index0 (getProp data ''choices'')) ''delta'')
                                      ''content'') (JStr []),
                          chunk_done = JBool False\<rparr>)))"

text \<open>The \<^verbatim>\<open>try\<close> block of \<^verbatim>\<open>parseStreamChunk\<close>, on the trimmed line.\<close>

definition tryParseChunk :: "env \<Rightarrow> string \<Rightarrow> string \<Rightarrow> thrown + AIStreamChunk option" where
  "tryParseChunk E provider trimmed =
     (if startsWith trimmed ''data: '' then
        (case JSON_parse E (drop 6 trimmed) of
           Inl e \<Rightarrow> Inl e
         | Inr data \<Rightarrow> chunkOf E provider data)
      else if startsWith trimmed ''{'' then
        (case JSON_parse E trimmed of
           Inl e \<Rightarrow> Inl e
         | Inr data \<Rightarrow> chunkOf E provider data)
      else Inr None)"

text \<open>The JSON text of a data line, as the two branches of the \<^verbatim>\<open>try\<close> block take
  it; \<open>None\<close> for a line that is no data line.\<close>

definition payload :: "string \<Rightarrow> string option" where
  "payload trimmed =
     (if startsWith trimmed ''data: '' then Some (drop 6 trimmed)
      else if startsWith trimmed ''{'' then Some trimmed
      else None)"

text \<open>\<^verbatim>\<open>parseStreamChunk\<close>: \<open>None\<close> is \<^verbatim>\<open>null\<close>; the \<^verbatim>\<open>catch\<close> turns
  whatever the block throws into \<^verbatim>\<open>null\<close>.\<close>

definition parseStreamChunk :: "env \<Rightarrow> string \<Rightarrow> string \<Rightarrow> AIStreamChunk option" where
  "parseStreamChunk E provider line =
     (let trimmed = trim line
      in if trimmed = [] \<or> trimmed = ''data: [DONE]''
         then (if trimmed = ''data: [DONE]'' then Some terminalChunk else None)
         else (case tryParseChunk E provider trimmed of
                 Inl e \<Rightarrow> None
               | Inr r \<Rightarrow> r))"

section \<open>The client and its suspension points\<close>

text \<open>
  The fields of the class (\<^verbatim>\<open>settings\<close>, \<^verbatim>\<open>retryConfig\<close>) together with a
  record of what the client has done: how often it has been suspended at an
  \<^verbatim>\<open>await\<close>, the requests it has handed to the network, and the callback
  invocations it has made, each in order.
\<close>

text \<open>The two callbacks of a streaming call are taken to return normally.\<close>

datatype callback = OnChunk jsval | OnComplete

record AIService =
  settings :: EvergreenAISettings
  retryConfig :: RetryConfig
  suspensions :: nat
  requests :: "request list"
  callbacks :: "callback list"

definition updateSettings :: "EvergreenAISettings \<Rightarrow> AIService \<Rightarrow> AIService" where
  "updateSettings s this = this\<lparr>settings := s\<rparr>"

text \<open>An \<^verbatim>\<open>await\<close>: other code runs, and may call \<^verbatim>\<open>updateSettings\<close>.\<close>

definition suspend :: "env \<Rightarrow> AIService \<Rightarrow> AIService" where
  "suspend E this =
     (case settingsUpdate E (suspensions this) of
        None \<Rightarrow> this
      | Some s \<Rightarrow> updateSettings s this)\<lparr>suspensions := Suc (suspensions this)\<rparr>"

definition send :: "request \<Rightarrow> AIService \<Rightarrow> AIService" where
  "send req this = this\<lparr>requests := requests this @ [req]\<rparr>"

definition invoke :: "callback \<Rightarrow> AIService \<Rightarrow> AIService" where
  "invoke cb this = this\<lparr>callbacks := callbacks this @ [cb]\<rparr>"

section \<open>Retry driver\<close>

text \<open>Lines 270 to 278: the delay before the next attempt, in whole milliseconds.
  \<^verbatim>\<open>if (error.retryAfter)\<close> is false for undefined and for 0.\<close>

definition retryDelay :: "RetryConfig \<Rightarrow> nat \<Rightarrow> AIServiceError \<Rightarrow> int" where
  "retryDelay cfg attempt e =
     (let delayMs = baseDelayMs cfg * 2 ^ attempt;
          delayMs' = (case retryAfter e of
                        None \<Rightarrow> delayMs
                      | Some s \<Rightarrow> if s \<noteq> 0 then s * 1000 else delayMs)
      in min delayMs' (maxDelayMs cfg))"

text \<open>
  One run of \<^verbatim>\<open>executeWithRetry\<close>: what the caller gets, the state it leaves, and in
  order the outcome of every invocation of the operation and every delay waited.
\<close>

record ('a, 'w) run =
  outcome :: "thrown + 'a"
  final :: 'w
  attempts :: "(thrown + 'a) list"
  waited :: "int list"

text \<open>The \<^verbatim>\<open>for\<close> loop of \<^verbatim>\<open>executeWithRetry\<close> from a given attempt on. The
  operation and \<^verbatim>\<open>this.delay\<close> act on a state \<open>'w\<close>.\<close>

function retryLoop ::
  "RetryConfig \<Rightarrow> ('w \<Rightarrow> (thrown + 'a) \<times> 'w) \<Rightarrow> (int \<Rightarrow> 'w \<Rightarrow> 'w) \<Rightarrow> nat \<Rightarrow> thrown option
     \<Rightarrow> (thrown + 'a) list \<Rightarrow> int list \<Rightarrow> 'w \<Rightarrow> ('a, 'w) run" where
  "retryLoop cfg operation delay attempt lastError tried waits w =
     (if int attempt \<le> maxRetries cfg then
        (case operation w of
           (Inr v, w') \<Rightarrow>
             \<lparr>outcome = Inr v, final = w', attempts = tried @ [Inr v], waited = waits\<rparr>
         | (Inl error, w') \<Rightarrow>
             (case error of
                ServiceError e \<Rightarrow>
                  if \<not> retryable e then
                    \<lparr>outcome = Inl error, final = w', attempts = tried @ [Inl error],
                     waited = waits\<rparr>
                  else if int attempt \<ge> maxRetries cfg then
                    \<lparr>outcome = Inl error, final = w', attempts = tried @ [Inl error],
                     waited = waits\<rparr>
                  else
                    retryLoop cfg operation delay (Suc attempt) (Some error)
                      (tried @ [Inl error]) (waits @ [retryDelay cfg attempt e])
                      (delay (retryDelay cfg attempt e) w')
              | _ \<Rightarrow>
                  \<lparr>outcome = Inl error, final = w', attempts = tried @ [Inl error],
                   waited = waits\<rparr>))
      else
        \<lparr>outcome = Inl (case lastError of
                          Some error \<Rightarrow> error
                        | None \<Rightarrow> ServiceError (mkError ''Retry limit exceeded'' UNKNOWN False None)),
         final = w, attempts = tried, waited = waits\<rparr>)"
  by pat_completeness auto
termination
  by (relation "measure (\<lambda>(cfg, operation, delay, attempt, lastError, tried, waits, w).
                  nat (maxRetries cfg + 1 - int attempt))") auto

declare retryLoop.simps [simp del]

definition executeWithRetry ::
  "RetryConfig \<Rightarrow> ('w \<Rightarrow> (thrown + 'a) \<times> 'w) \<Rightarrow> (int \<Rightarrow> 'w \<Rightarrow> 'w) \<Rightarrow> 'w \<Rightarrow> ('a, 'w) run" where
  "executeWithRetry cfg operation delay w = retryLoop cfg operation delay 0 None [] [] w"

text \<open>An attempt that the driver follows with another one: a retryable classified
  failure while retries remain.\<close>

definition retried :: "RetryConfig \<Rightarrow> nat \<Rightarrow> (thrown + 'a) \<Rightarrow> bool" where
  "retried cfg i x =
     (case x of
        Inl (ServiceError e) \<Rightarrow> retryable e \<and> int i < maxRetries cfg
      | _ \<Rightarrow> False)"

section \<open>Transport\<close>

definition ollamaOnMobile :: AIServiceError where
  "ollamaOnMobile =
     mkError ''Ollama (local AI) is not supported on mobile devices. Please use OpenAI, Anthropic, or a cloud-based custom endpoint.''
       UNKNOWN False None"

definition networkError :: AIServiceError where
  "networkError =
     mkError ''Network error - please check your internet connection'' NETWORK_ERROR True None"

text \<open>The \<^verbatim>\<open>catch\<close> block of the operation of \<^verbatim>\<open>generate\<close> (lines 103 to 125).\<close>

definition requestCatch :: "thrown \<Rightarrow> thrown" where
  "requestCatch error =
     (if isNetworkError error then ServiceError networkError
      else (case error of
              ServiceError e \<Rightarrow> error
            | JsError n m \<Rightarrow> ServiceError (mkError m UNKNOWN False None)
            | NonError \<Rightarrow> ServiceError (mkError ''Unknown error occurred'' UNKNOWN False None)))"

text \<open>The operation that \<^verbatim>\<open>generate\<close> hands to the retry driver: the request is
  built from \<^verbatim>\<open>this.settings\<close> before the \<^verbatim>\<open>await\<close>, the response is parsed
  with \<^verbatim>\<open>this.settings\<close> after it.\<close>

definition operation ::
  "env \<Rightarrow> string \<Rightarrow> string \<Rightarrow> AIService \<Rightarrow> (thrown + AIResponse) \<times> AIService" where
  "operation E prompt systemPrompt this =
     (case buildRequest E (settings this) prompt systemPrompt False of
        Inl e \<Rightarrow> (Inl e, this)
      | Inr req \<Rightarrow>
          (let this' = suspend E (send req this);
               tried =
                 (case requestUrl E (suspensions this) req of
                    Responded status json \<Rightarrow>
                      if status \<ge> 400 then
                        (case parseErrorResponse E status json of
                           Inl e \<Rightarrow> Inl e
                         | Inr e \<Rightarrow> Inl (ServiceError e))
                      else parseResponse E (aiProvider (settings this')) json
                  | RequestError n m \<Rightarrow> Inl (JsError n m)
                  | RequestThrew \<Rightarrow> Inl NonError)
           in (case tried of
                 Inl error \<Rightarrow> (Inl (requestCatch error), this')
               | Inr response \<Rightarrow> (Inr response, this'))))"

definition generate ::
  "env \<Rightarrow> string \<Rightarrow> string \<Rightarrow> AIService \<Rightarrow> (AIResponse, AIService) run" where
  "generate E prompt systemPrompt this =
     (if isMobile E \<and> aiProvider (settings this) = ''ollama'' then
        \<lparr>outcome = Inl (ServiceError ollamaOnMobile), final = this, attempts = [], waited = []\<rparr>
      else executeWithRetry (retryConfig this) (operation E prompt systemPrompt)
             (\<lambda>ms. suspend E) this)"

text \<open>The \<^verbatim>\<open>catch\<close> block of \<^verbatim>\<open>generateStream\<close> (lines 217 to 246).\<close>

definition streamCatch :: "thrown \<Rightarrow> thrown" where
  "streamCatch error =
     (case error of
        JsError n m \<Rightarrow>
          if n = ''AbortError'' then
            ServiceError
              (mkError ''Request timed out - try with shorter content or check your connection''
                 TIMEOUT True None)
          else if isNetworkError error then ServiceError networkError
          else ServiceError (mkError m UNKNOWN False None)
      | ServiceError e \<Rightarrow> error
      | NonError \<Rightarrow> ServiceError (mkError ''Unknown streaming error'' UNKNOWN False None))"

text \<open>\<^verbatim>\<open>lines.pop() || ''\<close> and the lines left in the array.\<close>

definition popLine :: "string list \<Rightarrow> string" where
  "popLine lines = (case rev lines of [] \<Rightarrow> [] | l # ls \<Rightarrow> l)"

text \<open>The \<^verbatim>\<open>for (const line of lines)\<close> loop. The flag says that a terminal chunk was
  met, \<^verbatim>\<open>onComplete\<close> called and the function left.\<close>

fun processLines :: "env \<Rightarrow> string list \<Rightarrow> AIService \<Rightarrow> bool \<times> AIService" where
  "processLines E [] this = (False, this)"
| "processLines E (line # rest) this =
     (case parseStreamChunk E (aiProvider (settings this)) line of
        None \<Rightarrow> processLines E rest this
      | Some chunk \<Rightarrow>
          if truthy (chunk_done chunk) then (True, invoke OnComplete this)
          else if truthy (chunk_content chunk)
            then processLines E rest (invoke (OnChunk (chunk_content chunk)) this)
          else processLines E rest this)"

text \<open>Lines 205 to 213: the rest of the buffer after the last read, then completion.\<close>

definition flushBuffer :: "env \<Rightarrow> string \<Rightarrow> AIService \<Rightarrow> AIService" where
  "flushBuffer E buffer this =
     invoke OnComplete
       (if buffer \<noteq> [] then
          (case parseStreamChunk E (aiProvider (settings this)) buffer of
             None \<Rightarrow> this
           | Some chunk \<Rightarrow>
               if truthy (chunk_content chunk) then invoke (OnChunk (chunk_content chunk)) this
               else this)
        else this)"

text \<open>The \<^verbatim>\<open>while (true)\<close> loop over the reads of the body, each read an
  \<^verbatim>\<open>await\<close>. The reads of a body are a list, so the body ends; on one that
  never ends the source does not return.\<close>

fun readLoop :: "env \<Rightarrow> read_result list \<Rightarrow> string \<Rightarrow> AIService \<Rightarrow> (thrown + unit) \<times> AIService" where
  "readLoop E [] buffer this = (Inr (), flushBuffer E buffer (suspend E this))"
| "readLoop E (Bytes text # reads) buffer this =
     (let lines = split_newline (buffer @ text)
      in (case processLines E (butlast lines) (suspend E this) of
            (True, this') \<Rightarrow> (Inr (), this')
          | (False, this') \<Rightarrow> readLoop E reads (popLine lines) this'))"
| "readLoop E (ReadError n m # reads) buffer this = (Inl (JsError n m), suspend E this)"
| "readLoop E (ReadThrew # reads) buffer this = (Inl NonError, suspend E this)"

definition noResponseBody :: AIServiceError where
  "noResponseBody = mkError ''No response body'' UNKNOWN False None"

definition generateStream ::
  "env \<Rightarrow> string \<Rightarrow> string \<Rightarrow> AIService \<Rightarrow> (thrown + unit) \<times> AIService" where
  "generateStream E prompt systemPrompt this =
     (if isMobile E then
        (if aiProvider (settings this) = ''ollama'' then (Inl (ServiceError ollamaOnMobile), this)
         else
           (let r = generate E prompt systemPrompt this
            in (case outcome r of
                  Inl error \<Rightarrow> (Inl error, final r)
                | Inr response \<Rightarrow>
                    (Inr (), invoke OnComplete (invoke (OnChunk (content response)) (final r))))))
      else
        (case buildRequest E (settings this) prompt systemPrompt True of
           Inl e \<Rightarrow> (Inl e, this)
         | Inr req \<Rightarrow>
             (let this' = suspend E (send req this)
              in (case fetch E (suspensions this) req of
                    FetchError n m \<Rightarrow> (Inl (streamCatch (JsError n m)), this')
                  | FetchThrew \<Rightarrow> (Inl (streamCatch NonError), this')
                  | Fetched response \<Rightarrow>
                      if \<not> resp_ok response then
                        (case parseErrorResponse E (resp_status response)
                                (case resp_json response of None \<Rightarrow> JObj [] | Some j \<Rightarrow> j) of
                           Inl e \<Rightarrow> (Inl (streamCatch e), suspend E this')
                         | Inr e \<Rightarrow> (Inl (streamCatch (ServiceError e)), suspend E this'))
                      else
                        (case resp_body response of
                           None \<Rightarrow> (Inl (streamCatch (ServiceError noResponseBody)), this')
                         | Some reads \<Rightarrow>
                             (case readLoop E reads [] this' of
                                (Inl error, this'') \<Rightarrow> (Inl (streamCatch error), this'')
                              | (Inr u, this'') \<Rightarrow> (Inr u, this'')))))))"

section \<open>An environment for the worked examples\<close>

text \<open>
  A desktop host whose network answers every request with one chat completion, whose
  \<^verbatim>\<open>JSON.parse\<close> is given on the lines the examples feed it (an error elsewhere)
  and which renders whole numbers; nobody replaces the configuration.
\<close>

function showNat :: "nat \<Rightarrow> string" where
  "showNat n =
     (if n < 10 then [char_of (48 + n)]
      else showNat (n div 10) @ [char_of (48 + n mod 10)])"
  by pat_completeness auto
termination
  by (relation "measure id") auto

definition exampleParse :: "string \<Rightarrow> thrown + jsval" where
  "exampleParse s =
     (if s = ''{\"foo\":1}'' then Inr (JObj [(''foo'', JNum 1)])
      else if s = ''{\"choices\":[{\"delta\":{\"content\":\"Hello\"}}]}''
        then Inr (JObj [(''choices'',
                         JArr [JObj [(''delta'', JObj [(''content'', JStr ''Hello'')])]])])
      else if s = ''{\"choices\":[{\"delta\":{\"content\":\" world\"}}]}''
        then Inr (JObj [(''choices'',
                         JArr [JObj [(''delta'', JObj [(''content'', JStr '' world'')])]])])
      else if s = ''{\"choices\":\"abc\"}'' then Inr (JObj [(''choices'', JStr ''abc'')])
      else Inl (JsError ''SyntaxError'' ''Unexpected token''))"

definition exampleSettings :: EvergreenAISettings where
  "exampleSettings =
     \<lparr>aiProvider = ''openai'', apiKey = Some ''sk-test'', apiEndpoint = None,
      model = ''gpt-4o-mini'', maxTokens = 2000, temperature = 7 / 10\<rparr>"

definition exampleReply :: jsval where
  "exampleReply =
     JObj [(''choices'', JArr [JObj [(''message'', JObj [(''content'', JStr ''connected'')])]]),
           (''model'', JStr ''gpt-4o-mini'')]"

definition exampleEnv :: env where
  "exampleEnv =
     \<lparr>isMobile = False,
      JSON_parse = exampleParse,
      Number_toString = (\<lambda>q. (if q < 0 then ''-'' else []) @ showNat (nat \<lfloor>\<bar>q\<bar>\<rfloor>)),
      TypeError_message = (\<lambda>expr. ''Cannot read properties of undefined: '' @ expr),
      defaults = \<lparr>openai_endpoint = ''https://api.openai.com/v1/chat/completions'',
                   anthropic_endpoint = ''https://api.anthropic.com/v1/messages'',
                   ollama_endpoint = ''http://localhost:11434/api/chat''\<rparr>,
      requestUrl = (\<lambda>k req. Responded 200 exampleReply),
      fetch = (\<lambda>k req. FetchError ''TypeError'' ''Failed to fetch''),
      settingsUpdate = (\<lambda>k. None)\<rparr>"

definition exampleService :: AIService where
  "exampleService =
     \<lparr>settings = exampleSettings, retryConfig = DEFAULT_RETRY_CONFIG, suspensions = 0,
      requests = [], callbacks = []\<rparr>"

text \<open>An operation that fails with the same error at every invocation; its state
  counts the invocations.\<close>

definition failing :: "AIServiceError \<Rightarrow> nat \<Rightarrow> (thrown + unit) \<times> nat" where
  "failing e k = (Inl (ServiceError e), Suc k)"

definition invalidKey :: AIServiceError where
  "invalidKey =
     mkError ''Invalid API key - please check your API key in settings'' INVALID_API_KEY False None"



definition rateLimited :: AIServiceError where
  "rateLimited = mkError ''Rate limit reached - waiting and retrying...'' RATE_LIMIT True (Some 60)"

text \<open>A stream of two reads: two fragments, the sentinel and one more data line in the
  first, another data line in the second.\<close>

definition helloLine :: string where
  "helloLine = ''data: {\"choices\":[{\"delta\":{\"content\":\"Hello\"}}]}''"

definition worldLine :: string where
  "worldLine = ''data: {\"choices\":[{\"delta\":{\"content\":\" world\"}}]}''"

definition streamEnv :: env where
  "streamEnv =
     exampleEnv\<lparr>fetch :=
       (\<lambda>k req. Fetched \<lparr>resp_ok = True, resp_status = 200, resp_json = None,
                           resp_body = Some [Bytes (helloLine @ [CHR 0x0A] @ worldLine @ [CHR 0x0A]
                                                      @ ''data: [DONE]'' @ [CHR 0x0A]
                                                      @ helloLine @ [CHR 0x0A]),
                                             Bytes (worldLine @ [CHR 0x0A])]\<rparr>)\<rparr>"

text \<open>A mobile host, and a client configured for the local server.\<close>

definition mobileEnv :: env where
  "mobileEnv = exampleEnv\<lparr>isMobile := True\<rparr>"

definition ollamaService :: AIService where
  "ollamaService = exampleService\<lparr>settings := exampleSettings\<lparr>aiProvider := ''ollama''\<rparr>\<rparr>"


section \<open>Error classification: status 429 and the server errors\<close>

lemma retryMatch_fixed:
  "retryMatch ''Rate limit reached - waiting and retrying...'' = None"
  by code_simp

lemma classify_429_rate_limited:
  assumes "\<not> includesStr (toLowerCase msg) ''quota''"
    and "\<not> includesStr (toLowerCase msg) ''billing''"
    and "\<not> includesStr (toLowerCase msg) ''limit exceeded''"
  shows "classify E 429 msg =
           mkError ''Rate limit reached - waiting and retrying...'' RATE_LIMIT True (Some 60)"
  using assms by (simp add: classify_def retryMatch_fixed del: retryMatch.simps)

lemma classify_429_quota:
  assumes "includesStr (toLowerCase msg) ''quota'' \<or> includesStr (toLowerCase msg) ''billing''
             \<or> includesStr (toLowerCase msg) ''limit exceeded''"
  shows "classify E 429 msg =
           mkError ''API quota exceeded - please check your billing/usage limits''
             QUOTA_EXCEEDED False None"
  using assms by (simp add: classify_def del: retryMatch.simps)


text \<open>
  C1. On status 429 a message with quota or billing wording is classified quota-exceeded
  and not retryable; any other message is rate-limited and retryable, and its suggested
  wait is the wait time written in the provider's message when there is one, 60 seconds
  otherwise. The code loses the written wait time: the provider's message below asks for
  20 seconds, which the source's own pattern finds in it, and the classification says 60,
  because the pattern is matched against the replacement text.
\<close>

theorem parseErrorResponse_429_wait_time_lost:
  "parseErrorResponse exampleEnv 429
     (JObj [(''error'',
             JObj [(''message'',
                    JStr ''Rate limit reached for requests. Please try again in 20s.'')])])
     = Inr \<lparr>message = ''Rate limit reached - waiting and retrying...'', code = RATE_LIMIT,
            retryable = True, retryAfter = Some 60\<rparr>
   \<and> retryMatch ''Rate limit reached for requests. Please try again in 20s.'' = Some ''20''
   \<and> parseInt ''20'' = 20"
  by code_simp







section \<open>Properties of the retry driver\<close>

lemma retryLoop_exit:
  "\<not> int a \<le> maxRetries cfg \<Longrightarrow>
   retryLoop cfg f d a le tried waits w =
     \<lparr>outcome = Inl (case le of
                       Some error \<Rightarrow> error
                     | None \<Rightarrow> ServiceError (mkError ''Retry limit exceeded'' UNKNOWN False None)),
      final = w, attempts = tried, waited = waits\<rparr>"
  by (subst retryLoop.simps) simp

lemma retryLoop_success:
  "int a \<le> maxRetries cfg \<Longrightarrow> f w = (Inr v, w') \<Longrightarrow>
   retryLoop cfg f d a le tried waits w =
     \<lparr>outcome = Inr v, final = w', attempts = tried @ [Inr v], waited = waits\<rparr>"
  by (subst retryLoop.simps) simp

lemma retryLoop_retry:
  "int a < maxRetries cfg \<Longrightarrow> f w = (Inl (ServiceError e), w') \<Longrightarrow> retryable e \<Longrightarrow>
   retryLoop cfg f d a le tried waits w =
     retryLoop cfg f d (Suc a) (Some (ServiceError e)) (tried @ [Inl (ServiceError e)])
       (waits @ [retryDelay cfg a e]) (d (retryDelay cfg a e) w')"
  by (subst retryLoop.simps) simp

lemma retryLoop_give_up:
  "int a \<le> maxRetries cfg \<Longrightarrow> f w = (Inl error, w') \<Longrightarrow>
   \<not> retried cfg a (Inl error :: thrown + 'a) \<Longrightarrow>
   retryLoop cfg f d a le tried waits w =
     \<lparr>outcome = Inl error, final = w', attempts = tried @ [Inl error], waited = waits\<rparr>"
  by (subst retryLoop.simps) (auto simp add: retried_def split: thrown.splits)

text \<open>The four ways one round of the loop can go.\<close>

lemma retryLoop_cases:
  obtains
    (exit) "\<not> int a \<le> maxRetries cfg"
  | (success) v w' where "int a \<le> maxRetries cfg" "f w = (Inr (v :: 'a), w')"
  | (retry) e w' where "int a < maxRetries cfg" "f w = (Inl (ServiceError e), w')" "retryable e"
  | (give_up) error w' where "int a \<le> maxRetries cfg" "f w = (Inl error, w')"
      "\<not> retried cfg a (Inl error :: thrown + 'a)"
proof (cases "int a \<le> maxRetries cfg")
  case False
  then show ?thesis by (rule exit)
next
  case le: True
  obtain res w' where op: "f w = (res, w')" by (cases "f w")
  show ?thesis
  proof (cases res)
    case (Inr v)
    with le op show ?thesis by (auto intro: success)
  next
    case (Inl error)
    show ?thesis
    proof (cases "retried cfg a (Inl error :: thrown + 'a)")
      case True
      with op Inl show ?thesis
        by (auto simp add: retried_def intro: retry split: thrown.splits)
    next
      case False
      with le op Inl show ?thesis by (auto intro: give_up)
    qed
  qed
qed


text \<open>The shape of every run of the loop that starts within the bound.\<close>


lemma retryLoop_shape:
  assumes "int a \<le> maxRetries cfg"
  shows "\<exists>new more.
           attempts (retryLoop cfg f d a le tried waits w) = tried @ new
         \<and> waited (retryLoop cfg f d a le tried waits w) = waits @ more
         \<and> length new = Suc (length more)
         \<and> outcome (retryLoop cfg f d a le tried waits w) = last new
         \<and> (\<forall>j < length more. \<exists>e. new ! j = Inl (ServiceError e) \<and> retryable e
                \<and> int (a + j) < maxRetries cfg \<and> more ! j = retryDelay cfg (a + j) e)
         \<and> \<not> retried cfg (a + length more) (last new)
         \<and> (\<forall>x \<in> set new. \<exists>v. fst (f v) = x)"
  using assms
proof (induction "nat (maxRetries cfg + 1 - int a)" arbitrary: a le tried waits w)
  case 0
  then show ?case by simp
next
  case (Suc n)
  show ?case
  proof (cases rule: retryLoop_cases [where a = a and cfg = cfg and f = f and w = w])
    case exit
    with Suc(3) show ?thesis by simp
  next
    case (success v w')
    have "fst (f w) = Inr v" using success(2) by simp
    then have "\<exists>u. fst (f u) = Inr v" by blast
    then show ?thesis
      using success
      by (simp add: retryLoop_success retried_def)
  next
    case (give_up error w')
    have "fst (f w) = Inl error" using give_up(2) by simp
    then have "\<exists>u. fst (f u) = Inl error" by blast
    then show ?thesis
      using give_up(3)
      by (simp add: retryLoop_give_up [where f = f and w = w, OF give_up(1,2,3)])
  next
    case (retry e w')
    let ?r = "retryLoop cfg f d (Suc a) (Some (ServiceError e)) (tried @ [Inl (ServiceError e)])
                (waits @ [retryDelay cfg a e]) (d (retryDelay cfg a e) w')"
    have eq: "retryLoop cfg f d a le tried waits w = ?r"
      using retry by (rule retryLoop_retry)
    have n: "n = nat (maxRetries cfg + 1 - int (Suc a))" using Suc(2) retry(1) by simp
    have le': "int (Suc a) \<le> maxRetries cfg" using retry(1) by simp
    from Suc(1) [OF n le', of "Some (ServiceError e)" "tried @ [Inl (ServiceError e)]"
        "waits @ [retryDelay cfg a e]" "d (retryDelay cfg a e) w'"]
    obtain new more where
      A: "attempts ?r = (tried @ [Inl (ServiceError e)]) @ new"
      and W: "waited ?r = (waits @ [retryDelay cfg a e]) @ more"
      and L: "length new = Suc (length more)"
      and O: "outcome ?r = last new"
      and R: "\<forall>j < length more. \<exists>e. new ! j = Inl (ServiceError e) \<and> retryable e
                \<and> int (Suc a + j) < maxRetries cfg \<and> more ! j = retryDelay cfg (Suc a + j) e"
      and S: "\<not> retried cfg (Suc a + length more) (last new)"
      and F: "\<forall>x \<in> set new. \<exists>v. fst (f v) = x"
      by blast
    have ne: "new \<noteq> []" using L by auto
    let ?new = "Inl (ServiceError e) # new" and ?more = "retryDelay cfg a e # more"
    have 1: "attempts ?r = tried @ ?new" using A by simp
    have 2: "waited ?r = waits @ ?more" using W by simp
    have 3: "length ?new = Suc (length ?more)" using L by simp
    have 4: "outcome ?r = last ?new" using O ne by simp
    have 5: "\<forall>j < length ?more. \<exists>e'. ?new ! j = Inl (ServiceError e') \<and> retryable e'
                \<and> int (a + j) < maxRetries cfg \<and> ?more ! j = retryDelay cfg (a + j) e'"
    proof (intro allI impI)
      fix j assume j: "j < length ?more"
      show "\<exists>e'. ?new ! j = Inl (ServiceError e') \<and> retryable e'
                \<and> int (a + j) < maxRetries cfg \<and> ?more ! j = retryDelay cfg (a + j) e'"
      proof (cases j)
        case 0
        then show ?thesis using retry(1,3) by simp
      next
        case (Suc k)
        with j have "k < length more" by simp
        with R Suc show ?thesis by simp
      qed
    qed
    have 6: "\<not> retried cfg (a + length ?more) (last ?new)" using S ne by simp
    have "fst (f w) = Inl (ServiceError e)" using retry(2) by simp
    then have "\<exists>u. fst (f u) = Inl (ServiceError e)" by blast
    then have 7: "\<forall>x \<in> set ?new. \<exists>v. fst (f v) = x" using F by simp
    show ?thesis
      unfolding eq using 1 2 3 4 5 6 7 by blast
  qed
qed


lemma executeWithRetry_shape:
  assumes "0 \<le> maxRetries cfg"
  shows "\<exists>more.
           length (attempts (executeWithRetry cfg f d w)) = Suc (length more)
         \<and> waited (executeWithRetry cfg f d w) = more
         \<and> outcome (executeWithRetry cfg f d w) = last (attempts (executeWithRetry cfg f d w))
         \<and> (\<forall>j < length more. \<exists>e. attempts (executeWithRetry cfg f d w) ! j = Inl (ServiceError e)
                \<and> retryable e \<and> int j < maxRetries cfg \<and> more ! j = retryDelay cfg j e)
         \<and> \<not> retried cfg (length more) (last (attempts (executeWithRetry cfg f d w)))
         \<and> (\<forall>x \<in> set (attempts (executeWithRetry cfg f d w)). \<exists>v. fst (f v) = x)"
proof -
  have "int 0 \<le> maxRetries cfg" using assms by simp
  from retryLoop_shape [OF this, of f d None "[]" "[]" w]
  show ?thesis unfolding executeWithRetry_def by auto
qed

text \<open>
  C5. A failure of the operation that is a non-retryable classified error, or no
  classified error at all, is what the caller gets, and the operation is not invoked
  again: when the first invocation fails so, it is the only one, and no delay is waited.
  When every invocation fails with a retryable classified error, there are as many
  invocations as the configured retries plus one (3 plus one by default), and the caller
  gets the classified error of the last one.
\<close>

theorem executeWithRetry_propagates:
  assumes "0 \<le> maxRetries cfg"
  shows "(\<forall>error w'. f w = (Inl error, w') \<and> (\<forall>e. error = ServiceError e \<longrightarrow> \<not> retryable e)
            \<longrightarrow> executeWithRetry cfg f d w =
                  \<lparr>outcome = Inl error, final = w', attempts = [Inl error], waited = []\<rparr>)
       \<and> (\<forall>i error. i < length (attempts (executeWithRetry cfg f d w))
              \<and> attempts (executeWithRetry cfg f d w) ! i = Inl error
              \<and> (\<forall>e. error = ServiceError e \<longrightarrow> \<not> retryable e)
            \<longrightarrow> outcome (executeWithRetry cfg f d w) = Inl error
                \<and> length (attempts (executeWithRetry cfg f d w)) = Suc i)
       \<and> ((\<forall>x \<in> set (attempts (executeWithRetry cfg f d w)).
               \<exists>e. x = Inl (ServiceError e) \<and> retryable e)
            \<longrightarrow> length (attempts (executeWithRetry cfg f d w)) = nat (maxRetries cfg) + 1
                \<and> (\<exists>e. outcome (executeWithRetry cfg f d w) = Inl (ServiceError e)
                       \<and> last (attempts (executeWithRetry cfg f d w)) = Inl (ServiceError e)))
       \<and> maxRetries DEFAULT_RETRY_CONFIG = 3"
proof -
  let ?r = "executeWithRetry cfg f d w"
  have z: "int 0 \<le> maxRetries cfg" using assms by simp
  obtain more where
    L: "length (attempts ?r) = Suc (length more)"
    and W: "waited ?r = more"
    and O: "outcome ?r = last (attempts ?r)"
    and R: "\<forall>j < length more. \<exists>e. attempts ?r ! j = Inl (ServiceError e)
                \<and> retryable e \<and> int j < maxRetries cfg \<and> more ! j = retryDelay cfg j e"
    and S: "\<not> retried cfg (length more) (last (attempts ?r))"
    using executeWithRetry_shape [OF assms, of f d w] by blast
  have ne: "attempts ?r \<noteq> []" using L by auto
  have lastnth: "last (attempts ?r) = attempts ?r ! length more"
    using L ne by (simp add: last_conv_nth)
  have first: "\<forall>error w'. f w = (Inl error, w') \<and> (\<forall>e. error = ServiceError e \<longrightarrow> \<not> retryable e)
            \<longrightarrow> ?r = \<lparr>outcome = Inl error, final = w', attempts = [Inl error], waited = []\<rparr>"
  proof (intro allI impI)
    fix error w'
    assume a: "f w = (Inl error, w') \<and> (\<forall>e. error = ServiceError e \<longrightarrow> \<not> retryable e)"
    then have "\<not> retried cfg 0 (Inl error :: thrown + 'a)"
      by (auto simp add: retried_def split: thrown.splits)
    with a z show "?r = \<lparr>outcome = Inl error, final = w', attempts = [Inl error], waited = []\<rparr>"
      unfolding executeWithRetry_def
      by (simp add: retryLoop_give_up [where f = f and w = w])
  qed
  have stop: "\<forall>i error. i < length (attempts ?r) \<and> attempts ?r ! i = Inl error
              \<and> (\<forall>e. error = ServiceError e \<longrightarrow> \<not> retryable e)
            \<longrightarrow> outcome ?r = Inl error \<and> length (attempts ?r) = Suc i"
  proof (intro allI impI)
    fix i error
    assume a: "i < length (attempts ?r) \<and> attempts ?r ! i = Inl error
              \<and> (\<forall>e. error = ServiceError e \<longrightarrow> \<not> retryable e)"
    have "\<not> i < length more"
    proof
      assume "i < length more"
      with R obtain e where "attempts ?r ! i = Inl (ServiceError e)" "retryable e" by blast
      with a show False by auto
    qed
    with a L have "i = length more" by simp
    with a O L lastnth show "outcome ?r = Inl error \<and> length (attempts ?r) = Suc i" by simp
  qed
  have persist: "(\<forall>x \<in> set (attempts ?r). \<exists>e. x = Inl (ServiceError e) \<and> retryable e)
            \<longrightarrow> length (attempts ?r) = nat (maxRetries cfg) + 1
                \<and> (\<exists>e. outcome ?r = Inl (ServiceError e)
                       \<and> last (attempts ?r) = Inl (ServiceError e))"
  proof
    assume a: "\<forall>x \<in> set (attempts ?r). \<exists>e. x = Inl (ServiceError e) \<and> retryable e"
    have "last (attempts ?r) \<in> set (attempts ?r)" using ne by simp
    with a obtain e where e: "last (attempts ?r) = Inl (ServiceError e)" "retryable e" by blast
    with S have up: "maxRetries cfg \<le> int (length more)" by (simp add: retried_def)
    have "int (length more) \<le> maxRetries cfg"
    proof (cases "length more")
      case 0
      with assms show ?thesis by simp
    next
      case (Suc k)
      then have "k < length more" by simp
      with R have "int k < maxRetries cfg" by blast
      with Suc show ?thesis by simp
    qed
    with up have "length more = nat (maxRetries cfg)" by simp
    with L O e show "length (attempts ?r) = nat (maxRetries cfg) + 1
                \<and> (\<exists>e. outcome ?r = Inl (ServiceError e)
                       \<and> last (attempts ?r) = Inl (ServiceError e))" by simp
  qed
  have "maxRetries DEFAULT_RETRY_CONFIG = 3" by (simp add: DEFAULT_RETRY_CONFIG_def)
  with first stop persist show ?thesis by blast
qed

theorem executeWithRetry_propagates_witness:
  "0 \<le> maxRetries DEFAULT_RETRY_CONFIG
   \<and> failing invalidKey 0 = (Inl (ServiceError invalidKey), Suc 0)
   \<and> \<not> retryable invalidKey
   \<and> executeWithRetry DEFAULT_RETRY_CONFIG (failing invalidKey) (\<lambda>ms k. k) 0
       = \<lparr>outcome = Inl (ServiceError invalidKey), final = Suc 0,
          attempts = [Inl (ServiceError invalidKey)], waited = []\<rparr>
   \<and> attempts (executeWithRetry DEFAULT_RETRY_CONFIG (failing rateLimited) (\<lambda>ms k. k) 0)
       = [Inl (ServiceError rateLimited), Inl (ServiceError rateLimited),
          Inl (ServiceError rateLimited), Inl (ServiceError rateLimited)]
   \<and> retryable rateLimited
   \<and> outcome (executeWithRetry DEFAULT_RETRY_CONFIG (failing rateLimited) (\<lambda>ms k. k) 0)
       = Inl (ServiceError rateLimited)"
proof -
  let ?stop = "executeWithRetry DEFAULT_RETRY_CONFIG (failing invalidKey) (\<lambda>ms k. k) 0"
  let ?all = "executeWithRetry DEFAULT_RETRY_CONFIG (failing rateLimited) (\<lambda>ms k. k) 0"
  have z: "0 \<le> maxRetries DEFAULT_RETRY_CONFIG" by (simp add: DEFAULT_RETRY_CONFIG_def)
  have f: "failing invalidKey 0 = (Inl (ServiceError invalidKey), Suc 0)"
    by (simp add: failing_def)
  have nr: "\<not> retryable invalidKey" by (simp add: invalidKey_def mkError_def)
  have rr: "retryable rateLimited" by (simp add: rateLimited_def mkError_def)
  have at: "attempts ?all
       = [Inl (ServiceError rateLimited), Inl (ServiceError rateLimited),
          Inl (ServiceError rateLimited), Inl (ServiceError rateLimited)]"
    by code_simp
  have nr': "\<forall>e. ServiceError invalidKey = ServiceError e \<longrightarrow> \<not> retryable e" using nr by simp
  from executeWithRetry_propagates [OF z, of "failing invalidKey" 0 "\<lambda>ms k. k"] f nr'
  have 1: "?stop = \<lparr>outcome = Inl (ServiceError invalidKey), final = Suc 0,
                    attempts = [Inl (ServiceError invalidKey)], waited = []\<rparr>"
    by blast
  have every: "\<forall>x \<in> set (attempts ?all). \<exists>e. x = Inl (ServiceError e) \<and> retryable e"
    unfolding at using rr by simp
  from executeWithRetry_propagates [OF z, of "failing rateLimited" 0 "\<lambda>ms k. k"] every
  obtain e where "outcome ?all = Inl (ServiceError e)" "last (attempts ?all) = Inl (ServiceError e)"
    by blast
  then have 2: "outcome ?all = Inl (ServiceError rateLimited)" unfolding at by simp
  show ?thesis using z f nr rr at 1 2 by simp
qed












section \<open>Properties of the streaming call\<close>

lemma suspend_keeps [simp]:
  "callbacks (suspend E w) = callbacks w"
  "requests (suspend E w) = requests w"
  "retryConfig (suspend E w) = retryConfig w"
  by (simp_all add: suspend_def updateSettings_def split: option.splits)

lemma send_keeps [simp]:
  "callbacks (send req w) = callbacks w"
  "settings (send req w) = settings w"
  by (simp_all add: send_def)

lemma invoke_keeps [simp]:
  "callbacks (invoke cb w) = callbacks w @ [cb]"
  "settings (invoke cb w) = settings w"
  by (simp_all add: invoke_def)

lemma processLines_callbacks:
  "processLines E ls w = (b, w') \<Longrightarrow>
   settings w' = settings w
   \<and> (\<exists>fs. callbacks w' = callbacks w @ map OnChunk fs @ (if b then [OnComplete] else []))"
proof (induction ls arbitrary: w)
  case Nil
  then show ?case by auto
next
  case (Cons line rest)
  show ?case
  proof (cases "parseStreamChunk E (aiProvider (settings w)) line")
    case None
    with Cons show ?thesis by simp
  next
    case (Some chunk)
    show ?thesis
    proof (cases "truthy (chunk_done chunk)")
      case True
      with Some Cons.prems have "b" "w' = invoke OnComplete w" by auto
      then show ?thesis by (auto intro: exI [of _ "[]"])
    next
      case nd: False
      show ?thesis
      proof (cases "truthy (chunk_content chunk)")
        case True
        with nd Some Cons.prems
        have "processLines E rest (invoke (OnChunk (chunk_content chunk)) w) = (b, w')" by simp
        from Cons.IH [OF this] obtain fs where
          "settings w' = settings w"
          "callbacks w' = (callbacks w @ [OnChunk (chunk_content chunk)]) @ map OnChunk fs
                            @ (if b then [OnComplete] else [])"
          by auto
        then show ?thesis by (auto intro: exI [of _ "chunk_content chunk # fs"])
      next
        case False
        with nd Some Cons.prems have "processLines E rest w = (b, w')" by simp
        from Cons.IH [OF this] show ?thesis .
      qed
    qed
  qed
qed

lemma flushBuffer_callbacks:
  "\<exists>fs. callbacks (flushBuffer E buffer w) = callbacks w @ map OnChunk fs @ [OnComplete]"
proof (cases "buffer \<noteq> [] \<and> (\<exists>chunk. parseStreamChunk E (aiProvider (settings w)) buffer = Some chunk
                 \<and> truthy (chunk_content chunk))")
  case True
  then obtain chunk where "parseStreamChunk E (aiProvider (settings w)) buffer = Some chunk"
    "truthy (chunk_content chunk)" "buffer \<noteq> []" by blast
  then show ?thesis
    by (auto simp add: flushBuffer_def intro: exI [of _ "[chunk_content chunk]"])
next
  case False
  then have "callbacks (flushBuffer E buffer w) = callbacks w @ [OnComplete]"
    by (auto simp add: flushBuffer_def split: option.splits)
  then show ?thesis by (auto intro: exI [of _ "[]"])
qed

lemma readLoop_callbacks:
  "readLoop E reads buffer w = (Inr u, w') \<Longrightarrow>
   \<exists>fs. callbacks w' = callbacks w @ map OnChunk fs @ [OnComplete]"
proof (induction reads arbitrary: buffer w)
  case Nil
  then have "w' = flushBuffer E buffer (suspend E w)" by simp
  with flushBuffer_callbacks [of E buffer "suspend E w"] show ?case by simp
next
  case (Cons r reads)
  show ?case
  proof (cases r)
    case (Bytes piece)
    let ?lines = "split_newline (buffer @ piece)"
    obtain b w1 where pl: "processLines E (butlast ?lines) (suspend E w) = (b, w1)"
      by (cases "processLines E (butlast ?lines) (suspend E w)")
    from processLines_callbacks [OF pl] obtain fs where
      cb: "callbacks w1 = callbacks w @ map OnChunk fs @ (if b then [OnComplete] else [])"
      by auto
    show ?thesis
    proof (cases b)
      case True
      with pl Bytes Cons.prems have "w' = w1" by (simp add: Let_def)
      with cb True show ?thesis by auto
    next
      case False
      with pl Bytes Cons.prems have "readLoop E reads (popLine ?lines) w1 = (Inr u, w')"
        by (simp add: Let_def)
      from Cons.IH [OF this] obtain gs where
        "callbacks w' = callbacks w1 @ map OnChunk gs @ [OnComplete]" by blast
      with cb False have "callbacks w' = callbacks w @ map OnChunk (fs @ gs) @ [OnComplete]"
        by simp
      then show ?thesis by blast
    qed
  next
    case (ReadError n m)
    with Cons.prems show ?thesis by simp
  next
    case ReadThrew
    with Cons.prems show ?thesis by simp
  qed
qed


lemma retryLoop_invariant:
  assumes "\<And>v. I v \<Longrightarrow> I (snd (f v))" and "\<And>ms v. I v \<Longrightarrow> I (d ms v)" and "I w"
  shows "I (final (retryLoop cfg f d a le tried waits w))"
  using assms(3)
proof (induction "nat (maxRetries cfg + 1 - int a)" arbitrary: a le tried waits w)
  case 0
  then have "\<not> int a \<le> maxRetries cfg" by simp
  with 0 show ?case by (simp add: retryLoop_exit)
next
  case (Suc n)
  show ?case
  proof (cases rule: retryLoop_cases [where a = a and cfg = cfg and f = f and w = w])
    case exit
    with Suc(3) show ?thesis by (simp add: retryLoop_exit)
  next
    case (success v w')
    from assms(1) [OF Suc(3)] success(2) have "I w'" by simp
    with success show ?thesis by (simp add: retryLoop_success)
  next
    case (give_up error w')
    from assms(1) [OF Suc(3)] give_up(2) have "I w'" by simp
    then show ?thesis
      by (simp add: retryLoop_give_up [where f = f and w = w, OF give_up(1,2,3)])
  next
    case (retry e w')
    from assms(1) [OF Suc(3)] retry(2) have "I w'" by simp
    then have i: "I (d (retryDelay cfg a e) w')" by (rule assms(2))
    have n: "n = nat (maxRetries cfg + 1 - int (Suc a))" using Suc(2) retry(1) by simp
    from Suc(1) [OF n i] show ?thesis
      using retry by (simp add: retryLoop_retry)
  qed
qed

lemma operation_callbacks:
  "callbacks (snd (operation E prompt systemPrompt v)) = callbacks v"
  by (simp add: operation_def Let_def split: sum.splits)

lemma generate_callbacks:
  "callbacks (final (generate E prompt systemPrompt this)) = callbacks this"
proof (cases "isMobile E \<and> aiProvider (settings this) = ''ollama''")
  case True
  then show ?thesis by (simp add: generate_def)
next
  case False
  have "callbacks (final (retryLoop (retryConfig this) (operation E prompt systemPrompt)
          (\<lambda>ms. suspend E) 0 None [] [] this)) = callbacks this"
    by (rule retryLoop_invariant [where I = "\<lambda>v. callbacks v = callbacks this"])
       (simp_all add: operation_callbacks)
  with False show ?thesis by (auto simp add: generate_def executeWithRetry_def)
qed

lemma processLines_settings:
  "settings (snd (processLines E ls w)) = settings w"
  using processLines_callbacks [of E ls w "fst (processLines E ls w)" "snd (processLines E ls w)"]
  by simp

lemma processLines_terminal_stops:
  assumes "parseStreamChunk E (aiProvider (settings w)) line = Some chunk"
    and "truthy (chunk_done chunk)"
  shows "fst (processLines E (before @ line # later) w)"
  using assms
proof (induction before arbitrary: w)
  case Nil
  then show ?case by simp
next
  case (Cons l before)
  have keep: "parseStreamChunk E (aiProvider (settings (invoke cb w))) line = Some chunk" for cb
    using Cons.prems(1) by simp
  show ?case
    using Cons.IH [OF Cons.prems] Cons.IH [OF keep Cons.prems(2)]
    by (simp split: option.splits)
qed

lemma processLines_terminal_eq:
  assumes "parseStreamChunk E (aiProvider (settings w)) line = Some chunk"
    and "truthy (chunk_done chunk)"
  shows "processLines E (before @ line # later) w = processLines E (before @ [line]) w"
  using assms
proof (induction before arbitrary: w)
  case Nil
  then show ?case by simp
next
  case (Cons l before)
  have keep: "parseStreamChunk E (aiProvider (settings (invoke cb w))) line = Some chunk" for cb
    using Cons.prems(1) by simp
  show ?case
    using Cons.IH [OF Cons.prems] Cons.IH [OF keep Cons.prems(2)]
    by (simp split: option.splits)
qed

text \<open>
  C8. In every streaming call that succeeds the callbacks invoked are fragment callbacks
  followed by one completion callback: completion is signalled exactly once and no
  fragment is delivered after it. A line that parses to a terminal chunk ends the
  processing of the lines of its read: the lines after it are not looked at, and the
  call returns without another read.
\<close>

theorem generateStream_completes_once:
  "(fst (generateStream E prompt systemPrompt this) = Inr () \<longrightarrow>
      (\<exists>fragments. callbacks (snd (generateStream E prompt systemPrompt this))
                     = callbacks this @ map OnChunk fragments @ [OnComplete]))
   \<and> (\<forall>chunk. parseStreamChunk E (aiProvider (settings this)) line = Some chunk
          \<and> truthy (chunk_done chunk)
        \<longrightarrow> fst (processLines E (before @ line # later) this)
            \<and> processLines E (before @ line # later) this
                = processLines E (before @ [line]) this)
   \<and> (fst (processLines E (butlast (split_newline (buffer @ piece))) (suspend E this)) \<longrightarrow>
        readLoop E (Bytes piece # reads) buffer this
          = (Inr (), snd (processLines E (butlast (split_newline (buffer @ piece)))
                            (suspend E this))))"
proof (intro conjI impI allI)
  assume ok: "fst (generateStream E prompt systemPrompt this) = Inr ()"
  show "\<exists>fragments. callbacks (snd (generateStream E prompt systemPrompt this))
                     = callbacks this @ map OnChunk fragments @ [OnComplete]"
  proof (cases "isMobile E")
    case True
    let ?r = "generate E prompt systemPrompt this"
    from ok True obtain response where
      "outcome ?r = Inr response"
      "snd (generateStream E prompt systemPrompt this)
         = invoke OnComplete (invoke (OnChunk (content response)) (final ?r))"
      by (auto simp add: generateStream_def Let_def split: if_splits sum.splits)
    then have "callbacks (snd (generateStream E prompt systemPrompt this))
                 = callbacks this @ map OnChunk [content response] @ [OnComplete]"
      by (simp add: generate_callbacks)
    then show ?thesis by blast
  next
    case False
    from ok False obtain req resp reads where
      rl: "readLoop E reads [] (suspend E (send req this))
             = (Inr (), snd (generateStream E prompt systemPrompt this))"
      by (auto simp add: generateStream_def Let_def
            split: sum.splits fetch_result.splits if_splits option.splits prod.splits)
    from readLoop_callbacks [OF rl] show ?thesis by simp
  qed
next
  fix chunk
  assume "parseStreamChunk E (aiProvider (settings this)) line = Some chunk
          \<and> truthy (chunk_done chunk)"
  then have p: "parseStreamChunk E (aiProvider (settings this)) line = Some chunk"
    and t: "truthy (chunk_done chunk)" by simp_all
  show "fst (processLines E (before @ line # later) this)"
    using p t by (rule processLines_terminal_stops)
  show "processLines E (before @ line # later) this = processLines E (before @ [line]) this"
    using p t by (rule processLines_terminal_eq)
next
  assume "fst (processLines E (butlast (split_newline (buffer @ piece))) (suspend E this))"
  then show "readLoop E (Bytes piece # reads) buffer this
          = (Inr (), snd (processLines E (butlast (split_newline (buffer @ piece)))
                            (suspend E this)))"
    by (cases "processLines E (butlast (split_newline (buffer @ piece))) (suspend E this)")
       (simp add: Let_def)
qed

theorem generateStream_completes_once_witness:
  "fst (generateStream streamEnv ''Hi'' ''Be brief.'' exampleService) = Inr ()
   \<and> callbacks (snd (generateStream streamEnv ''Hi'' ''Be brief.'' exampleService))
       = [OnChunk (JStr ''Hello''), OnChunk (JStr '' world''), OnComplete]
   \<and> (\<exists>fragments. callbacks (snd (generateStream streamEnv ''Hi'' ''Be brief.'' exampleService))
          = callbacks exampleService @ map OnChunk fragments @ [OnComplete])
   \<and> parseStreamChunk streamEnv (aiProvider (settings exampleService)) ''data: [DONE]''
       = Some terminalChunk
   \<and> truthy (chunk_done terminalChunk)
   \<and> processLines streamEnv ([helloLine, worldLine] @ ''data: [DONE]'' # [helloLine]) exampleService
       = processLines streamEnv ([helloLine, worldLine] @ [''data: [DONE]'']) exampleService
   \<and> callbacks (snd (processLines streamEnv ([helloLine, worldLine] @ [''data: [DONE]''])
                        exampleService))
       = [OnChunk (JStr ''Hello''), OnChunk (JStr '' world''), OnComplete]"
proof -
  let ?run = "generateStream streamEnv ''Hi'' ''Be brief.'' exampleService"
  have ok: "fst ?run = Inr ()" by code_simp
  have cb: "callbacks (snd ?run) = [OnChunk (JStr ''Hello''), OnChunk (JStr '' world''), OnComplete]"
    by code_simp
  have p: "parseStreamChunk streamEnv (aiProvider (settings exampleService)) ''data: [DONE]''
             = Some terminalChunk"
    by code_simp
  have t: "truthy (chunk_done terminalChunk)" by (simp add: terminalChunk_def)
  have pl: "callbacks (snd (processLines streamEnv ([helloLine, worldLine] @ [''data: [DONE]''])
                        exampleService))
       = [OnChunk (JStr ''Hello''), OnChunk (JStr '' world''), OnComplete]"
    by code_simp
  note T = generateStream_completes_once [of streamEnv "''Hi''" "''Be brief.''" exampleService
      "''data: [DONE]''" "[helloLine, worldLine]" "[helloLine]"]
  from T ok have 1: "\<exists>fragments. callbacks (snd ?run)
          = callbacks exampleService @ map OnChunk fragments @ [OnComplete]"
    by blast
  from T p t have 2: "processLines streamEnv ([helloLine, worldLine] @ ''data: [DONE]'' # [helloLine])
         exampleService
       = processLines streamEnv ([helloLine, worldLine] @ [''data: [DONE]'']) exampleService"
    by blast
  show ?thesis using ok cb 1 p t 2 pl by blast
qed



section \<open>Request Builder: headers and bodies\<close>

text \<open>
  C6. For every prompt, system instruction and streaming flag the request has the
  credential header of its provider (bearer Authorization for OpenAI and, when a key is
  set, for custom; \<^verbatim>\<open>x-api-key\<close> and the fixed \<^verbatim>\<open>anthropic-version\<close> for
  Anthropic; none for the local server, and none for custom without a key) and the body
  of its provider (system and user messages for OpenAI, custom and local; the system
  instruction as a field of its own and one user message for Anthropic; the sampling
  parameters under \<^verbatim>\<open>options\<close> for the local server). Headers and bodies are
  given in full.
\<close>

theorem buildRequest_shapes:
  "(aiProvider s = ''openai'' \<longrightarrow>
      (\<exists>req. buildRequest E s prompt systemPrompt stream = Inr req
         \<and> headers req =
             [(''Content-Type'', Some ''application/json''),
              (''Authorization'',
               Some (''Bearer '' @ (case apiKey s of None \<Rightarrow> ''undefined'' | Some key \<Rightarrow> key)))]
         \<and> body req =
             JObj [(''model'', JStr (model s)),
                   (''messages'',
                    JArr [JObj [(''role'', JStr ''system''), (''content'', JStr systemPrompt)],
                          JObj [(''role'', JStr ''user''), (''content'', JStr prompt)]]),
                   (''max_tokens'', JNum (maxTokens s)),
                   (''temperature'', JNum (temperature s)),
                   (''stream'', JBool stream)]))
   \<and> (aiProvider s = ''custom'' \<longrightarrow>
      (\<exists>req. buildRequest E s prompt systemPrompt stream = Inr req
         \<and> headers req =
             (case apiKey s of
                None \<Rightarrow> [(''Content-Type'', Some ''application/json'')]
              | Some key \<Rightarrow>
                  if key = [] then [(''Content-Type'', Some ''application/json'')]
                  else [(''Content-Type'', Some ''application/json''),
                        (''Authorization'', Some (''Bearer '' @ key))])
         \<and> body req =
             JObj [(''model'', JStr (model s)),
                   (''messages'',
                    JArr [JObj [(''role'', JStr ''system''), (''content'', JStr systemPrompt)],
                          JObj [(''role'', JStr ''user''), (''content'', JStr prompt)]]),
                   (''max_tokens'', JNum (maxTokens s)),
                   (''temperature'', JNum (temperature s)),
                   (''stream'', JBool stream)]))
   \<and> (aiProvider s = ''anthropic'' \<longrightarrow>
      (\<exists>req. buildRequest E s prompt systemPrompt stream = Inr req
         \<and> headers req =
             [(''Content-Type'', Some ''application/json''),
              (''x-api-key'', apiKey s),
              (''anthropic-version'', Some ''2023-06-01'')]
         \<and> body req =
             JObj [(''model'', JStr (model s)),
                   (''system'', JStr systemPrompt),
                   (''messages'',
                    JArr [JObj [(''role'', JStr ''user''), (''content'', JStr prompt)]]),
                   (''max_tokens'', JNum (maxTokens s)),
                   (''temperature'', JNum (temperature s)),
                   (''stream'', JBool stream)]))
   \<and> (aiProvider s = ''ollama'' \<longrightarrow>
      (\<exists>req. buildRequest E s prompt systemPrompt stream = Inr req
         \<and> headers req = [(''Content-Type'', Some ''application/json'')]
         \<and> body req =
             JObj [(''model'', JStr (model s)),
                   (''messages'',
                    JArr [JObj [(''role'', JStr ''system''), (''content'', JStr systemPrompt)],
                          JObj [(''role'', JStr ''user''), (''content'', JStr prompt)]]),
                   (''stream'', JBool stream),
                   (''options'',
                    JObj [(''temperature'', JNum (temperature s)),
                          (''num_predict'', JNum (maxTokens s))])]))"
  by (simp add: buildRequest_def buildOpenAIRequest_def buildCustomRequest_def
        buildAnthropicRequest_def buildOllamaRequest_def chatMessage_def bearer_def present_def
      split: option.splits)

theorem buildRequest_shapes_witness:
  "aiProvider exampleSettings = ''openai''
   \<and> (\<exists>req. buildRequest exampleEnv exampleSettings ''Hi'' ''Be brief.'' True = Inr req
         \<and> headers req = [(''Content-Type'', Some ''application/json''),
                           (''Authorization'', Some ''Bearer sk-test'')]
         \<and> body req =
             JObj [(''model'', JStr ''gpt-4o-mini''),
                   (''messages'',
                    JArr [JObj [(''role'', JStr ''system''), (''content'', JStr ''Be brief.'')],
                          JObj [(''role'', JStr ''user''), (''content'', JStr ''Hi'')]]),
                   (''max_tokens'', JNum 2000),
                   (''temperature'', JNum (7 / 10)),
                   (''stream'', JBool True)])
   \<and> aiProvider (exampleSettings\<lparr>aiProvider := ''custom''\<rparr>) = ''custom''
   \<and> (\<exists>req. buildRequest exampleEnv (exampleSettings\<lparr>aiProvider := ''custom''\<rparr>)
               ''Hi'' ''Be brief.'' True = Inr req
         \<and> headers req = [(''Content-Type'', Some ''application/json''),
                           (''Authorization'', Some ''Bearer sk-test'')]
         \<and> body req =
             JObj [(''model'', JStr ''gpt-4o-mini''),
                   (''messages'',
                    JArr [JObj [(''role'', JStr ''system''), (''content'', JStr ''Be brief.'')],
                          JObj [(''role'', JStr ''user''), (''content'', JStr ''Hi'')]]),
                   (''max_tokens'', JNum 2000),
                   (''temperature'', JNum (7 / 10)),
                   (''stream'', JBool True)])
   \<and> (\<exists>req. buildRequest exampleEnv (exampleSettings\<lparr>aiProvider := ''custom'', apiKey := Some []\<rparr>)
               ''Hi'' ''Be brief.'' True = Inr req
         \<and> headers req = [(''Content-Type'', Some ''application/json'')])
   \<and> (\<exists>req. buildRequest exampleEnv (exampleSettings\<lparr>aiProvider := ''custom'', apiKey := None\<rparr>)
               ''Hi'' ''Be brief.'' True = Inr req
         \<and> headers req = [(''Content-Type'', Some ''application/json'')])
   \<and> aiProvider (exampleSettings\<lparr>aiProvider := ''anthropic''\<rparr>) = ''anthropic''
   \<and> (\<exists>req. buildRequest exampleEnv (exampleSettings\<lparr>aiProvider := ''anthropic''\<rparr>)
               ''Hi'' ''Be brief.'' True = Inr req
         \<and> headers req = [(''Content-Type'', Some ''application/json''),
                           (''x-api-key'', Some ''sk-test''),
                           (''anthropic-version'', Some ''2023-06-01'')]
         \<and> body req =
             JObj [(''model'', JStr ''gpt-4o-mini''),
                   (''system'', JStr ''Be brief.''),
                   (''messages'', JArr [JObj [(''role'', JStr ''user''), (''content'', JStr ''Hi'')]]),
                   (''max_tokens'', JNum 2000),
                   (''temperature'', JNum (7 / 10)),
                   (''stream'', JBool True)])
   \<and> aiProvider (exampleSettings\<lparr>aiProvider := ''ollama''\<rparr>) = ''ollama''
   \<and> (\<exists>req. buildRequest exampleEnv (exampleSettings\<lparr>aiProvider := ''ollama''\<rparr>)
               ''Hi'' ''Be brief.'' True = Inr req
         \<and> headers req = [(''Content-Type'', Some ''application/json'')]
         \<and> body req =
             JObj [(''model'', JStr ''gpt-4o-mini''),
                   (''messages'',
                    JArr [JObj [(''role'', JStr ''system''), (''content'', JStr ''Be brief.'')],
                          JObj [(''role'', JStr ''user''), (''content'', JStr ''Hi'')]]),
                   (''stream'', JBool True),
                   (''options'',
                    JObj [(''temperature'', JNum (7 / 10)), (''num_predict'', JNum 2000)])])"
proof -
  let ?keyed = "exampleSettings\<lparr>aiProvider := ''custom''\<rparr>"
  let ?empty = "exampleSettings\<lparr>aiProvider := ''custom'', apiKey := Some []\<rparr>"
  let ?none = "exampleSettings\<lparr>aiProvider := ''custom'', apiKey := None\<rparr>"
  let ?anthropic = "exampleSettings\<lparr>aiProvider := ''anthropic''\<rparr>"
  let ?ollama = "exampleSettings\<lparr>aiProvider := ''ollama''\<rparr>"
  have o: "aiProvider exampleSettings = ''openai''" by (simp add: exampleSettings_def)
  have c: "aiProvider ?keyed = ''custom''" "aiProvider ?empty = ''custom''"
    "aiProvider ?none = ''custom''" by simp_all
  have a: "aiProvider ?anthropic = ''anthropic''" by simp
  have l: "aiProvider ?ollama = ''ollama''" by simp
  have f: "apiKey exampleSettings = Some ''sk-test''" "model exampleSettings = ''gpt-4o-mini''"
    "maxTokens exampleSettings = 2000" "temperature exampleSettings = 7 / 10"
    by (simp_all add: exampleSettings_def)
  note T = buildRequest_shapes [where E = exampleEnv and prompt = "''Hi''"
      and systemPrompt = "''Be brief.''" and stream = True]
  have 1: "\<exists>req. buildRequest exampleEnv exampleSettings ''Hi'' ''Be brief.'' True = Inr req
         \<and> headers req = [(''Content-Type'', Some ''application/json''),
                           (''Authorization'', Some ''Bearer sk-test'')]
         \<and> body req =
             JObj [(''model'', JStr ''gpt-4o-mini''),
                   (''messages'',
                    JArr [JObj [(''role'', JStr ''system''), (''content'', JStr ''Be brief.'')],
                          JObj [(''role'', JStr ''user''), (''content'', JStr ''Hi'')]]),
                   (''max_tokens'', JNum 2000),
                   (''temperature'', JNum (7 / 10)),
                   (''stream'', JBool True)]"
    using T [of exampleSettings] o f by simp
  have 2: "\<exists>req. buildRequest exampleEnv ?keyed ''Hi'' ''Be brief.'' True = Inr req
         \<and> headers req = [(''Content-Type'', Some ''application/json''),
                           (''Authorization'', Some ''Bearer sk-test'')]
         \<and> body req =
             JObj [(''model'', JStr ''gpt-4o-mini''),
                   (''messages'',
                    JArr [JObj [(''role'', JStr ''system''), (''content'', JStr ''Be brief.'')],
                          JObj [(''role'', JStr ''user''), (''content'', JStr ''Hi'')]]),
                   (''max_tokens'', JNum 2000),
                   (''temperature'', JNum (7 / 10)),
                   (''stream'', JBool True)]"
    using T [of ?keyed] c f by simp
  have 3: "\<exists>req. buildRequest exampleEnv ?empty ''Hi'' ''Be brief.'' True = Inr req
         \<and> headers req = [(''Content-Type'', Some ''application/json'')]"
    using T [of ?empty] c by auto
  have 4: "\<exists>req. buildRequest exampleEnv ?none ''Hi'' ''Be brief.'' True = Inr req
         \<and> headers req = [(''Content-Type'', Some ''application/json'')]"
    using T [of ?none] c by auto
  have 5: "\<exists>req. buildRequest exampleEnv ?anthropic ''Hi'' ''Be brief.'' True = Inr req
         \<and> headers req = [(''Content-Type'', Some ''application/json''),
                           (''x-api-key'', Some ''sk-test''),
                           (''anthropic-version'', Some ''2023-06-01'')]
         \<and> body req =
             JObj [(''model'', JStr ''gpt-4o-mini''),
                   (''system'', JStr ''Be brief.''),
                   (''messages'', JArr [JObj [(''role'', JStr ''user''), (''content'', JStr ''Hi'')]]),
                   (''max_tokens'', JNum 2000),
                   (''temperature'', JNum (7 / 10)),
                   (''stream'', JBool True)]"
    using T [of ?anthropic] a f by simp
  have 6: "\<exists>req. buildRequest exampleEnv ?ollama ''Hi'' ''Be brief.'' True = Inr req
         \<and> headers req = [(''Content-Type'', Some ''application/json'')]
         \<and> body req =
             JObj [(''model'', JStr ''gpt-4o-mini''),
                   (''messages'',
                    JArr [JObj [(''role'', JStr ''system''), (''content'', JStr ''Be brief.'')],
                          JObj [(''role'', JStr ''user''), (''content'', JStr ''Hi'')]]),
                   (''stream'', JBool True),
                   (''options'',
                    JObj [(''temperature'', JNum (7 / 10)), (''num_predict'', JNum 2000)])]"
    using T [of ?ollama] l f by simp
  show ?thesis using o c(1) a l 1 2 3 4 5 6 by blast
qed

text \<open>
  C10. For the OpenAI provider the request always carries an Authorization header
  \<^verbatim>\<open>Bearer\<close> followed by the configured key, also when the key is empty or
  undefined (then \<^verbatim>\<open>Bearer \<close> or \<^verbatim>\<open>Bearer undefined\<close>); the custom provider
  leaves the header out when no key is set, and the local one never sends it.
\<close>

theorem openai_always_bearer:
  "(aiProvider s = ''openai'' \<longrightarrow>
      buildRequest E s prompt systemPrompt stream
        = Inr (buildOpenAIRequest E s prompt systemPrompt stream))
   \<and> map_of (headers (buildOpenAIRequest E s prompt systemPrompt stream)) ''Authorization''
       = Some (Some (''Bearer '' @ (case apiKey s of None \<Rightarrow> ''undefined'' | Some key \<Rightarrow> key)))
   \<and> (apiKey s = None \<or> apiKey s = Some [] \<longrightarrow>
        map_of (headers (buildCustomRequest E s prompt systemPrompt stream)) ''Authorization''
          = None)
   \<and> map_of (headers (buildOllamaRequest E s prompt systemPrompt stream)) ''Authorization'' = None"
  by (auto simp add: buildRequest_def buildOpenAIRequest_def buildCustomRequest_def
        buildOllamaRequest_def bearer_def present_def)

theorem openai_always_bearer_witness:
  "aiProvider (exampleSettings\<lparr>apiKey := None\<rparr>) = ''openai''
   \<and> apiKey (exampleSettings\<lparr>apiKey := None\<rparr>) = None
   \<and> buildRequest exampleEnv (exampleSettings\<lparr>apiKey := None\<rparr>) ''Hi'' ''Be brief.'' False
       = Inr (buildOpenAIRequest exampleEnv (exampleSettings\<lparr>apiKey := None\<rparr>) ''Hi'' ''Be brief.''
                False)
   \<and> map_of (headers (buildOpenAIRequest exampleEnv (exampleSettings\<lparr>apiKey := None\<rparr>)
                         ''Hi'' ''Be brief.'' False)) ''Authorization''
       = Some (Some ''Bearer undefined'')
   \<and> map_of (headers (buildCustomRequest exampleEnv (exampleSettings\<lparr>apiKey := None\<rparr>)
                         ''Hi'' ''Be brief.'' False)) ''Authorization'' = None"
proof -
  have p: "aiProvider (exampleSettings\<lparr>apiKey := None\<rparr>) = ''openai''"
    by (simp add: exampleSettings_def)
  have k: "apiKey (exampleSettings\<lparr>apiKey := None\<rparr>) = None" by simp
  show ?thesis
    using p k openai_always_bearer [of "exampleSettings\<lparr>apiKey := None\<rparr>" exampleEnv
        "''Hi''" "''Be brief.''" False]
    by simp
qed

section \<open>The platform restriction\<close>

text \<open>
  C7. On a mobile host a call with the local-server provider fails at once, from both
  entry points, with a classified error that is not retryable; the client is left as it
  was, so no request has been sent.
\<close>

theorem mobile_ollama_refused:
  assumes "isMobile E" and "aiProvider (settings this) = ''ollama''"
  shows "generate E prompt systemPrompt this =
           \<lparr>outcome = Inl (ServiceError ollamaOnMobile), final = this, attempts = [], waited = []\<rparr>
       \<and> generateStream E prompt systemPrompt this = (Inl (ServiceError ollamaOnMobile), this)
       \<and> \<not> retryable ollamaOnMobile
       \<and> requests (final (generate E prompt systemPrompt this)) = requests this
       \<and> requests (snd (generateStream E prompt systemPrompt this)) = requests this"
  using assms by (simp add: generate_def generateStream_def ollamaOnMobile_def mkError_def)

theorem mobile_ollama_refused_witness:
  "isMobile mobileEnv \<and> aiProvider (settings ollamaService) = ''ollama''
   \<and> outcome (generate mobileEnv ''Hi'' ''Be brief.'' ollamaService)
       = Inl (ServiceError ollamaOnMobile)
   \<and> attempts (generate mobileEnv ''Hi'' ''Be brief.'' ollamaService) = []
   \<and> generateStream mobileEnv ''Hi'' ''Be brief.'' ollamaService
       = (Inl (ServiceError ollamaOnMobile), ollamaService)
   \<and> requests (final (generate mobileEnv ''Hi'' ''Be brief.'' ollamaService)) = []
   \<and> requests (snd (generateStream mobileEnv ''Hi'' ''Be brief.'' ollamaService)) = []"
proof -
  have m: "isMobile mobileEnv" by (simp add: mobileEnv_def exampleEnv_def)
  have p: "aiProvider (settings ollamaService) = ''ollama''"
    by (simp add: ollamaService_def exampleService_def exampleSettings_def)
  have r: "requests ollamaService = []" by (simp add: ollamaService_def exampleService_def)
  show ?thesis
    using m p r mobile_ollama_refused [OF m p, of "''Hi''" "''Be brief.''"] by simp
qed

section \<open>The chunk parser\<close>

lemma tryParseChunk_payload:
  "tryParseChunk E provider trimmed =
     (case payload trimmed of
        None \<Rightarrow> Inr None
      | Some js \<Rightarrow> (case JSON_parse E js of Inl e \<Rightarrow> Inl e | Inr data \<Rightarrow> chunkOf E provider data))"
  by (simp add: tryParseChunk_def payload_def)

lemma payload_empty: "payload [] = None"
  by (simp add: payload_def)

lemma parseStreamChunk_payload:
  assumes "trim line \<noteq> ''data: [DONE]''"
  shows "parseStreamChunk E provider line =
     (case payload (trim line) of
        None \<Rightarrow> None
      | Some js \<Rightarrow>
          (case JSON_parse E js of
             Inl e \<Rightarrow> None
           | Inr data \<Rightarrow> (case chunkOf E provider data of Inl e \<Rightarrow> None | Inr r \<Rightarrow> r)))"
proof (cases "trim line = []")
  case True
  then show ?thesis by (simp add: parseStreamChunk_def payload_empty)
next
  case False
  with assms show ?thesis
    by (simp add: parseStreamChunk_def tryParseChunk_payload Let_def split: option.splits sum.splits)
qed

lemma parseStreamChunk_sentinel:
  "trim line = ''data: [DONE]'' \<Longrightarrow>
   parseStreamChunk E provider line = Some \<lparr>chunk_content = JStr [], chunk_done = JBool True\<rparr>"
  by (simp add: parseStreamChunk_def terminalChunk_def Let_def)

text \<open>
  C9, as the code has it. The chunk parser never throws: whatever the \<^verbatim>\<open>try\<close>
  block raises becomes \<^verbatim>\<open>null\<close>. The trimmed line \<^verbatim>\<open>data: [DONE]\<close> yields the
  terminal chunk for every provider. For every other line: a line that, trimmed, starts
  with neither \<^verbatim>\<open>data: \<close> nor an opening brace, a data line whose text
  \<^verbatim>\<open>JSON.parse\<close> rejects and one that decodes to null yield \<^verbatim>\<open>null\<close>. Of
  the decoded values, Anthropic yields \<^verbatim>\<open>null\<close> for a \<^verbatim>\<open>type\<close> that is
  neither \<^verbatim>\<open>content_block_delta\<close> nor \<^verbatim>\<open>message_stop\<close>; the
  OpenAI-compatible providers (every identifier but the Anthropic and the local one) yield
  \<^verbatim>\<open>null\<close> when \<^verbatim>\<open>choices\<close> is missing or otherwise falsy, when its length
  is 0 and when its first element is null or undefined, and a chunk for every other
  \<^verbatim>\<open>choices\<close>; the local server yields a chunk for every decoded value other than
  null, with empty content and \<^verbatim>\<open>done\<close> false when the fields are missing.
\<close>

theorem parseStreamChunk_skips:
  "(trim line = ''data: [DONE]'' \<longrightarrow>
      parseStreamChunk E provider line = Some \<lparr>chunk_content = JStr [], chunk_done = JBool True\<rparr>)
   \<and> (trim line \<noteq> ''data: [DONE]'' \<longrightarrow>
        (\<not> startsWith (trim line) ''data: '' \<and> \<not> startsWith (trim line) ''{''
           \<longrightarrow> parseStreamChunk E provider line = None)
      \<and> (\<forall>js e. payload (trim line) = Some js \<and> JSON_parse E js = Inl e
             \<longrightarrow> parseStreamChunk E provider line = None)
      \<and> (\<forall>js data. payload (trim line) = Some js \<and> JSON_parse E js = Inr data \<longrightarrow>
             (\<forall>e. chunkOf E provider data = Inl e \<longrightarrow> parseStreamChunk E provider line = None)
           \<and> (data = JNull \<or> data = JUndefined \<longrightarrow> parseStreamChunk E provider line = None)
           \<and> (provider = ''anthropic''
                \<and> getProp data ''type'' \<noteq> JStr ''content_block_delta''
                \<and> getProp data ''type'' \<noteq> JStr ''message_stop''
              \<longrightarrow> parseStreamChunk E provider line = None)
           \<and> (provider \<noteq> ''anthropic'' \<and> provider \<noteq> ''ollama''
                \<and> (\<not> truthy (getProp data ''choices'') \<or> lengthIsZero (getProp data ''choices''))
              \<longrightarrow> parseStreamChunk E provider line = None)
           \<and> (provider \<noteq> ''anthropic'' \<and> provider \<noteq> ''ollama''
                \<and> truthy (getProp data ''choices'') \<and> \<not> lengthIsZero (getProp data ''choices'')
                \<and> (index0 (getProp data ''choices'') = JNull
                     \<or> index0 (getProp data ''choices'') = JUndefined)
              \<longrightarrow> parseStreamChunk E provider line = None)
           \<and> (provider \<noteq> ''anthropic'' \<and> provider \<noteq> ''ollama''
                \<and> data \<noteq> JNull \<and> data \<noteq> JUndefined
                \<and> truthy (getProp data ''choices'') \<and> \<not> lengthIsZero (getProp data ''choices'')
                \<and> index0 (getProp data ''choices'') \<noteq> JNull
                \<and> index0 (getProp data ''choices'') \<noteq> JUndefined
              \<longrightarrow> parseStreamChunk E provider line =
                    Some (if getProp (index0 (getProp data ''choices'')) ''finish_reason''
                               = JStr ''stop''
                          then \<lparr>chunk_content = JStr [], chunk_done = JBool True\<rparr>
                          else \<lparr>chunk_content =
                                  (let delta = getProp (index0 (getProp data ''choices'')) ''delta'';
                                       c = (if delta = JNull \<or> delta = JUndefined then JUndefined
                                            else getProp delta ''content'')
                                   in if truthy c then c else JStr []),
                                chunk_done = JBool False\<rparr>))
           \<and> (provider = ''ollama'' \<and> data \<noteq> JNull \<and> data \<noteq> JUndefined
              \<longrightarrow> parseStreamChunk E provider line =
                    Some \<lparr>chunk_content =
                            (let m = getProp data ''message'';
                                 c = (if m = JNull \<or> m = JUndefined then JUndefined
                                      else getProp m ''content'')
                             in if truthy c then c else JStr []),
                          chunk_done =
                            (if truthy (getProp data ''done'') then getProp data ''done''
                             else JBool False)\<rparr>)))"
proof (intro conjI impI)
  assume "trim line = ''data: [DONE]''"
  then show "parseStreamChunk E provider line
               = Some \<lparr>chunk_content = JStr [], chunk_done = JBool True\<rparr>"
    by (rule parseStreamChunk_sentinel)
next
  assume ns: "trim line \<noteq> ''data: [DONE]''"
  assume "\<not> startsWith (trim line) ''data: '' \<and> \<not> startsWith (trim line) ''{''"
  then have "payload (trim line) = None" by (simp add: payload_def)
  then show "parseStreamChunk E provider line = None"
    by (simp add: parseStreamChunk_payload [OF ns])
next
  assume ns: "trim line \<noteq> ''data: [DONE]''"
  show "\<forall>js e. payload (trim line) = Some js \<and> JSON_parse E js = Inl e
             \<longrightarrow> parseStreamChunk E provider line = None"
    by (simp add: parseStreamChunk_payload [OF ns])
next
  assume ns: "trim line \<noteq> ''data: [DONE]''"
  have nl: "nullish v \<longleftrightarrow> v = JNull \<or> v = JUndefined" for v by (cases v) simp_all
  show "\<forall>js data. payload (trim line) = Some js \<and> JSON_parse E js = Inr data \<longrightarrow>
             (\<forall>e. chunkOf E provider data = Inl e \<longrightarrow> parseStreamChunk E provider line = None)
           \<and> (data = JNull \<or> data = JUndefined \<longrightarrow> parseStreamChunk E provider line = None)
           \<and> (provider = ''anthropic''
                \<and> getProp data ''type'' \<noteq> JStr ''content_block_delta''
                \<and> getProp data ''type'' \<noteq> JStr ''message_stop''
              \<longrightarrow> parseStreamChunk E provider line = None)
           \<and> (provider \<noteq> ''anthropic'' \<and> provider \<noteq> ''ollama''
                \<and> (\<not> truthy (getProp data ''choices'') \<or> lengthIsZero (getProp data ''choices''))
              \<longrightarrow> parseStreamChunk E provider line = None)
           \<and> (provider \<noteq> ''anthropic'' \<and> provider \<noteq> ''ollama''
                \<and> truthy (getProp data ''choices'') \<and> \<not> lengthIsZero (getProp data ''choices'')
                \<and> (index0 (getProp data ''choices'') = JNull
                     \<or> index0 (getProp data ''choices'') = JUndefined)
              \<longrightarrow> parseStreamChunk E provider line = None)
           \<and> (provider \<noteq> ''anthropic'' \<and> provider \<noteq> ''ollama''
                \<and> data \<noteq> JNull \<and> data \<noteq> JUndefined
                \<and> truthy (getProp data ''choices'') \<and> \<not> lengthIsZero (getProp data ''choices'')
                \<and> index0 (getProp data ''choices'') \<noteq> JNull
                \<and> index0 (getProp data ''choices'') \<noteq> JUndefined
              \<longrightarrow> parseStreamChunk E provider line =
                    Some (if getProp (index0 (getProp data ''choices'')) ''finish_reason''
                               = JStr ''stop''
                          then \<lparr>chunk_content = JStr [], chunk_done = JBool True\<rparr>
                          else \<lparr>chunk_content =
                                  (let delta = getProp (index0 (getProp data ''choices'')) ''delta'';
                                       c = (if delta = JNull \<or> delta = JUndefined then JUndefined
                                            else getProp delta ''content'')
                                   in if truthy c then c else JStr []),
                                chunk_done = JBool False\<rparr>))
           \<and> (provider = ''ollama'' \<and> data \<noteq> JNull \<and> data \<noteq> JUndefined
              \<longrightarrow> parseStreamChunk E provider line =
                    Some \<lparr>chunk_content =
                            (let m = getProp data ''message'';
                                 c = (if m = JNull \<or> m = JUndefined then JUndefined
                                      else getProp m ''content'')
                             in if truthy c then c else JStr []),
                          chunk_done =
                            (if truthy (getProp data ''done'') then getProp data ''done''
                             else JBool False)\<rparr>)"
    unfolding parseStreamChunk_payload [OF ns]
    by (auto simp add: chunkOf_def nl orElse_def optProp_def terminalChunk_def Let_def)
qed


theorem parseStreamChunk_skips_witness:
  "trim '' data: [DONE] '' = ''data: [DONE]''
   \<and> parseStreamChunk exampleEnv ''custom'' '' data: [DONE] ''
       = Some \<lparr>chunk_content = JStr [], chunk_done = JBool True\<rparr>
   \<and> trim ''{\"foo\":1}'' \<noteq> ''data: [DONE]''
   \<and> payload (trim ''{\"foo\":1}'') = Some ''{\"foo\":1}''
   \<and> JSON_parse exampleEnv ''{\"foo\":1}'' = Inr (JObj [(''foo'', JNum 1)])
   \<and> parseStreamChunk exampleEnv ''openai'' ''{\"foo\":1}'' = None
   \<and> parseStreamChunk exampleEnv ''anthropic'' ''{\"foo\":1}'' = None
   \<and> parseStreamChunk exampleEnv ''ollama'' ''{\"foo\":1}''
       = Some \<lparr>chunk_content = JStr [], chunk_done = JBool False\<rparr>
   \<and> \<not> startsWith (trim ''event: ping'') ''data: ''
   \<and> \<not> startsWith (trim ''event: ping'') ''{''
   \<and> parseStreamChunk exampleEnv ''openai'' ''event: ping'' = None
   \<and> payload (trim ''{not json'') = Some ''{not json''
   \<and> JSON_parse exampleEnv ''{not json'' = Inl (JsError ''SyntaxError'' ''Unexpected token'')
   \<and> parseStreamChunk exampleEnv ''ollama'' ''{not json'' = None
   \<and> payload (trim ''data: {\"choices\":\"abc\"}'') = Some ''{\"choices\":\"abc\"}''
   \<and> JSON_parse exampleEnv ''{\"choices\":\"abc\"}'' = Inr (JObj [(''choices'', JStr ''abc'')])
   \<and> parseStreamChunk exampleEnv ''openai'' ''data: {\"choices\":\"abc\"}''
       = Some \<lparr>chunk_content = JStr [], chunk_done = JBool False\<rparr>"
proof -
  let ?data = "JObj [(''foo'', JNum 1)]"
  let ?abc = "JObj [(''choices'', JStr ''abc'')]"
  have s: "trim '' data: [DONE] '' = ''data: [DONE]''" by code_simp
  have t: "trim ''{\"foo\":1}'' \<noteq> ''data: [DONE]''" by code_simp
  have p: "payload (trim ''{\"foo\":1}'') = Some ''{\"foo\":1}''" by code_simp
  have j: "JSON_parse exampleEnv ''{\"foo\":1}'' = Inr ?data"
    by (simp add: exampleEnv_def exampleParse_def)
  have t2: "trim ''event: ping'' \<noteq> ''data: [DONE]''" by code_simp
  have p2: "\<not> startsWith (trim ''event: ping'') ''data: ''"
    "\<not> startsWith (trim ''event: ping'') ''{''" by code_simp+
  have t3: "trim ''{not json'' \<noteq> ''data: [DONE]''" by code_simp
  have p3: "payload (trim ''{not json'') = Some ''{not json''" by code_simp
  have j3: "JSON_parse exampleEnv ''{not json'' = Inl (JsError ''SyntaxError'' ''Unexpected token'')"
    by (simp add: exampleEnv_def exampleParse_def)
  have t4: "trim ''data: {\"choices\":\"abc\"}'' \<noteq> ''data: [DONE]''" by code_simp
  have p4: "payload (trim ''data: {\"choices\":\"abc\"}'') = Some ''{\"choices\":\"abc\"}''"
    by code_simp
  have j4: "JSON_parse exampleEnv ''{\"choices\":\"abc\"}'' = Inr ?abc"
    by (simp add: exampleEnv_def exampleParse_def)
  from parseStreamChunk_skips [of "'' data: [DONE] ''" exampleEnv "''custom''"] s
  have 0: "parseStreamChunk exampleEnv ''custom'' '' data: [DONE] ''
       = Some \<lparr>chunk_content = JStr [], chunk_done = JBool True\<rparr>" by blast
  from parseStreamChunk_skips [of "''{\"foo\":1}''" exampleEnv "''openai''"] t p j
  have 1: "parseStreamChunk exampleEnv ''openai'' ''{\"foo\":1}'' = None" by simp
  from parseStreamChunk_skips [of "''{\"foo\":1}''" exampleEnv "''anthropic''"] t p j
  have 2: "parseStreamChunk exampleEnv ''anthropic'' ''{\"foo\":1}'' = None" by simp
  from parseStreamChunk_skips [of "''{\"foo\":1}''" exampleEnv "''ollama''"] t p j
  have 3: "parseStreamChunk exampleEnv ''ollama'' ''{\"foo\":1}''
       = Some \<lparr>chunk_content = JStr [], chunk_done = JBool False\<rparr>"
    by simp
  from parseStreamChunk_skips [of "''event: ping''" exampleEnv "''openai''"] t2 p2
  have 4: "parseStreamChunk exampleEnv ''openai'' ''event: ping'' = None" by blast
  from parseStreamChunk_skips [of "''{not json''" exampleEnv "''ollama''"] t3 p3 j3
  have 5: "parseStreamChunk exampleEnv ''ollama'' ''{not json'' = None" by simp
  from parseStreamChunk_skips [of "''data: {\"choices\":\"abc\"}''" exampleEnv "''openai''"] t4 p4 j4
  have 6: "parseStreamChunk exampleEnv ''openai'' ''data: {\"choices\":\"abc\"}''
       = Some \<lparr>chunk_content = JStr [], chunk_done = JBool False\<rparr>"
    by simp
  show ?thesis using s 0 t p j 1 2 3 p2 4 p3 j3 5 p4 j4 6 by blast
qed

text \<open>C9 as stated fails for the local server: a line of valid JSON of an unrelated
  shape yields a chunk, not \<^verbatim>\<open>null\<close>.\<close>

theorem parseStreamChunk_ollama_unrelated:
  "parseStreamChunk exampleEnv ''ollama'' ''{\"foo\":1}''
     = Some \<lparr>chunk_content = JStr [], chunk_done = JBool False\<rparr>"
  by code_simp

section \<open>Replacing the configuration during a call\<close>

lemma suspend_quiet:
  "settingsUpdate E (suspensions v) = None \<Longrightarrow> settings (suspend E v) = settings v"
  by (simp add: suspend_def)







end
